theory Spec2Isabelle
  imports Main
begin

section \<open>Python values\<close>

text \<open>
  The exceptions that the modelled code can raise.  A function that may raise returns
  \<open>error + 'a\<close>, with \<open>Inl\<close> for the exception.
\<close>

datatype error = ValueError | TypeError | IndexError | KeyError | TransportError

text \<open>
  Python strings are modelled as \<open>string\<close>; a \<open>char\<close> is read as the code point of
  the same number (U+0000 to U+00FF).  \<open>str.isdigit\<close> holds for the ten decimal digits and
  for the superscript digits U+00B2, U+00B3 and U+00B9 (Numeric_Type=Digit);
  \<open>str.isdecimal\<close> only for the ten decimal digits.
\<close>

definition isdecimal_char :: "char \<Rightarrow> bool" where
  "isdecimal_char c = (48 \<le> (of_char c :: nat) \<and> (of_char c :: nat) \<le> 57)"

definition isdigit_char :: "char \<Rightarrow> bool" where
  "isdigit_char c =
     (isdecimal_char c \<or> (of_char c :: nat) = 178 \<or> (of_char c :: nat) = 179
        \<or> (of_char c :: nat) = 185)"

definition isdigit :: "string \<Rightarrow> bool" where
  "isdigit s = (s \<noteq> [] \<and> list_all isdigit_char s)"

definition isdecimal :: "string \<Rightarrow> bool" where
  "isdecimal s = (s \<noteq> [] \<and> list_all isdecimal_char s)"

text \<open>
  \<open>int(s)\<close> on a string, base ten: surrounding whitespace is skipped, one sign is
  allowed, then decimal digits with single underscores between them; anything else
  raises \<open>ValueError\<close>, and so does a literal of more than \<open>max_str_digits\<close> digits
  (\<open>sys.int_info.default_max_str_digits\<close>; leading zeros count, underscores do not).
\<close>

definition max_str_digits :: nat where
  "max_str_digits = 4300"

definition int_space :: "char \<Rightarrow> bool" where
  "int_space c = ((of_char c :: nat) \<in> {9, 10, 11, 12, 13, 32, 133, 160})"

definition digits_value :: "string \<Rightarrow> nat" where
  "digits_value s = foldl (\<lambda>a c. 10 * a + ((of_char c :: nat) - 48)) 0 s"

fun underscores_ok :: "string \<Rightarrow> bool" where
  "underscores_ok [] = False"
| "underscores_ok [c] = (c \<noteq> CHR ''_'')"
| "underscores_ok (c # d # cs) =
     (\<not> (c = CHR ''_'' \<and> d = CHR ''_'') \<and> underscores_ok (d # cs))"

definition py_int :: "string \<Rightarrow> error + int" where
  "py_int s =
     (let t = dropWhile int_space s;
          neg = (case t of [] \<Rightarrow> False | c # _ \<Rightarrow> c = CHR ''-'');
          u = (case t of [] \<Rightarrow> []
               | c # r \<Rightarrow> if c = CHR ''+'' \<or> c = CHR ''-'' then r else t);
          body = takeWhile (\<lambda>c. isdecimal_char c \<or> c = CHR ''_'') u;
          rest = dropWhile (\<lambda>c. isdecimal_char c \<or> c = CHR ''_'') u
      in if body \<noteq> [] \<and> hd body \<noteq> CHR ''_'' \<and> underscores_ok body
            \<and> list_all int_space rest
            \<and> length (filter isdecimal_char body) \<le> max_str_digits
         then Inr ((if neg then - 1 else 1) * int (digits_value (filter isdecimal_char body)))
         else Inl ValueError)"

text \<open>
  \<open>str(n)\<close> on an integer: the decimal numeral, with a minus sign when negative.
  \<open>str\<close> raises only on an integer of more than \<open>max_str_digits\<close> digits; it is
  applied here to results of \<open>int\<close>, which have no more, and to years.
\<close>

definition digit_char :: "nat \<Rightarrow> char" where
  "digit_char n = char_of (48 + n)"

function str_nat :: "nat \<Rightarrow> string" where
  "str_nat n = (if n < 10 then [digit_char n] else str_nat (n div 10) @ [digit_char (n mod 10)])"
  by pat_completeness auto
termination
  by (relation "measure id") auto

declare str_nat.simps [simp del]

definition py_str :: "int \<Rightarrow> string" where
  "py_str i = (if i < 0 then CHR ''-'' # str_nat (nat (- i)) else str_nat (nat i))"

text \<open>\<open>sep.join(xs)\<close>.\<close>

fun join :: "string \<Rightarrow> string list \<Rightarrow> string" where
  "join sep [] = []"
| "join sep [x] = x"
| "join sep (x # y # ys) = x @ sep @ join sep (y # ys)"

section \<open>Bundle identity: \<open>issue_id\<close>\<close>

text \<open>
  \<open>data\<close> is the dictionary built from the zipped labels and values;
  \<open>data.get(label)\<close> is \<open>None\<close> for a missing label and for a label bound to \<open>None\<close>.
\<close>

definition data_get :: "(string \<times> string option) list \<Rightarrow> string \<Rightarrow> string option" where
  "data_get data label = (case map_of data label of None \<Rightarrow> None | Some v \<Rightarrow> v)"

text \<open>The first loop: the truthy values of the labels, in order.\<close>

fun id_head :: "(string \<times> string option) list \<Rightarrow> string list \<Rightarrow> string list" where
  "id_head data [] = []"
| "id_head data (label # labels) =
     (case data_get data label of
        None \<Rightarrow> id_head data labels
      | Some v \<Rightarrow> if v \<noteq> [] then v # id_head data labels else id_head data labels)"

text \<open>
  The second loop: for each truthy value, an all-digit value goes through
  \<open>str(int(value))\<close>, and the prefixed value is appended.
\<close>

fun id_tail :: "(string \<times> string option) list \<Rightarrow> (string \<times> string) list \<Rightarrow> error + string list" where
  "id_tail data [] = Inr []"
| "id_tail data ((label, prefix) # labels) =
     (case data_get data label of
        None \<Rightarrow> id_tail data labels
      | Some v \<Rightarrow>
          if v \<noteq> [] then
            (case (if isdigit v then map_sum id py_str (py_int v) else Inr v) of
               Inl e \<Rightarrow> Inl e
             | Inr v' \<Rightarrow>
                 (case id_tail data labels of
                    Inl e \<Rightarrow> Inl e
                  | Inr rest \<Rightarrow> Inr ((prefix @ v') # rest)))
          else id_tail data labels)"

definition issue_id ::
  "string option \<Rightarrow> string option \<Rightarrow> string option \<Rightarrow> string option \<Rightarrow> string option
     \<Rightarrow> error + string" where
  "issue_id issn_id year volume number supplement =
     (let labels = [''issn_id'', ''year'', ''volume'', ''number'', ''supplement''];
          values = [issn_id, year, volume, number, supplement];
          data = zip labels values
      in case id_tail data [(''volume'', ''v''), (''number'', ''n''), (''supplement'', ''s'')] of
           Inl e \<Rightarrow> Inl e
         | Inr rest \<Rightarrow> Inr (join ''-'' (id_head data [''issn_id'', ''year''] @ rest)))"

section \<open>Payload values\<close>

text \<open>
  The values that payloads and remote documents hold: \<open>None\<close>, booleans, integers,
  strings, lists and dictionaries.  A dictionary is an association list in insertion
  order; Python dictionaries have pairwise distinct keys.
\<close>

datatype json =
    JNone
  | JBool bool
  | JInt int
  | JStr string
  | JList "json list"
  | JDict "(string \<times> json) list"

type_synonym dict = "(string \<times> json) list"

text \<open>Truth value testing, as \<open>if v\<close> and \<open>or\<close> apply it.\<close>

fun truthy :: "json \<Rightarrow> bool" where
  "truthy JNone = False"
| "truthy (JBool b) = b"
| "truthy (JInt i) = (i \<noteq> 0)"
| "truthy (JStr s) = (s \<noteq> [])"
| "truthy (JList xs) = (xs \<noteq> [])"
| "truthy (JDict d) = (d \<noteq> [])"

text \<open>\<open>d.get(k)\<close>, with \<open>None\<close> for a missing key.\<close>

definition dict_get :: "dict \<Rightarrow> string \<Rightarrow> json" where
  "dict_get d k = (case map_of d k of None \<Rightarrow> JNone | Some v \<Rightarrow> v)"

text \<open>
  The operator \<open>==\<close> on these values: lists compare element by element, dictionaries
  key by key whatever the order, and a boolean equals the integer 0 or 1.
\<close>

fun py_eq :: "json \<Rightarrow> json \<Rightarrow> bool"
  and py_eq_list :: "json list \<Rightarrow> json list \<Rightarrow> bool"
  and py_eq_sub :: "(string \<times> json) list \<Rightarrow> (string \<times> json) list \<Rightarrow> bool"
  and py_eq_in :: "string \<Rightarrow> json \<Rightarrow> (string \<times> json) list \<Rightarrow> bool" where
  "py_eq JNone y = (y = JNone)"
| "py_eq (JBool a) y =
     (case y of JBool b \<Rightarrow> a = b | JInt i \<Rightarrow> (if a then 1 else 0) = i | _ \<Rightarrow> False)"
| "py_eq (JInt i) y =
     (case y of JBool b \<Rightarrow> i = (if b then 1 else 0) | JInt j \<Rightarrow> i = j | _ \<Rightarrow> False)"
| "py_eq (JStr s) y = (y = JStr s)"
| "py_eq (JList xs) y = (case y of JList ys \<Rightarrow> py_eq_list xs ys | _ \<Rightarrow> False)"
| "py_eq (JDict a) y =
     (case y of JDict b \<Rightarrow> length a = length b \<and> py_eq_sub a b | _ \<Rightarrow> False)"
| "py_eq_list [] ys = (ys = [])"
| "py_eq_list (x # xs) ys =
     (case ys of [] \<Rightarrow> False | y # ys' \<Rightarrow> py_eq x y \<and> py_eq_list xs ys')"
| "py_eq_sub [] b = True"
| "py_eq_sub ((k, v) # a) b = (py_eq_in k v b \<and> py_eq_sub a b)"
| "py_eq_in k v [] = False"
| "py_eq_in k v ((k', v') # b) = (if k' = k then py_eq v v' else py_eq_in k v b)"

section \<open>The structural, order-insensitive diff\<close>

text \<open>
  Modelled from the spec: the diff of the deepdiff library,
  \<open>DeepDiff(t1, t2, ignore_order=True)\<close>, is imported by the source and is not part
  of it.  The spec describes it as a structural, order-insensitive diff between the remote
  metadata and the filtered payload.  \<open>deep_equal\<close> is the relation under which that
  diff is empty: values of different kinds differ, scalars are compared by value, lists as
  sets of items (order and repetition are not reported), dictionaries key by key.
  \<open>DeepDiff t1 t2\<close> is the truth value of the diff: \<open>True\<close> when it reports a
  difference.
\<close>

fun deep_equal :: "json \<Rightarrow> json \<Rightarrow> bool" where
  "deep_equal JNone JNone = True"
| "deep_equal (JBool a) (JBool b) = (a = b)"
| "deep_equal (JInt i) (JInt j) = (i = j)"
| "deep_equal (JStr s) (JStr t) = (s = t)"
| "deep_equal (JList xs) (JList ys) =
     (list_all (\<lambda>x. list_ex (\<lambda>y. deep_equal x y) ys) xs
      \<and> list_all (\<lambda>y. list_ex (\<lambda>x. deep_equal x y) xs) ys)"
| "deep_equal (JDict a) (JDict b) =
     (list_all (\<lambda>kv. list_ex (\<lambda>kv'. fst kv' = fst kv \<and> deep_equal (snd kv) (snd kv')) b) a
      \<and> list_all (\<lambda>kv'. list_ex (\<lambda>kv. fst kv = fst kv' \<and> deep_equal (snd kv) (snd kv')) a) b)"
| "deep_equal _ _ = False"

definition DeepDiff :: "json \<Rightarrow> json \<Rightarrow> bool" where
  "DeepDiff t1 t2 = (\<not> deep_equal t1 t2)"

section \<open>Legacy records\<close>

text \<open>
  A legacy journal record, as the attributes of the decoder's \<open>Journal\<close> object that the
  code reads.  Every attribute is optional: \<open>None\<close> is the attribute that yields
  \<open>None\<close>.  An entry of the status history is the tuple (date, status, reason).
\<close>

record Journal =
  any_issn :: "string option"
  scielo_issn :: "string option"
  mission :: "(string \<times> string) list option"
  title :: "string option"
  abbreviated_iso_title :: "string option"
  abbreviated_title :: "string option"
  acronym :: "string option"
  print_issn :: "string option"
  electronic_issn :: "string option"
  status_history :: "(string \<times> string \<times> string option) list option"
  subject_areas :: "string list option"
  sponsors :: "string list option"
  wos_subject_areas :: "string list option"
  submission_url :: "string option"
  next_title :: "string option"
  previous_title :: "string option"
  editor_email :: "string option"
  editor_address :: "string option"

text \<open>
  A legacy issue record.  \<open>v35\<close> is the list found at \<open>data["issue"]["v35"]\<close>
  (\<open>None\<close> when the field is missing), each entry given by the value at its key
  \<open>"_"\<close> (\<open>None\<close> when the entry has no such key).
\<close>

record Issue =
  volume :: "string option"
  number :: "string option"
  supplement_volume :: "string option"
  supplement_number :: "string option"
  issue_type :: string
  titles :: "(string \<times> string) list option"
  start_month :: "string option"
  end_month :: "string option"
  publication_date :: "string option"
  v35 :: "string option list option"

text \<open>Truth value of an optional string, and \<open>x or default\<close>.\<close>

fun truthy_str :: "string option \<Rightarrow> bool" where
  "truthy_str None = False"
| "truthy_str (Some s) = (s \<noteq> [])"

definition str_or :: "string option \<Rightarrow> string \<Rightarrow> string" where
  "str_or x d = (case x of None \<Rightarrow> d | Some s \<Rightarrow> if s \<noteq> [] then s else d)"

text \<open>The list of \<open>{"language": lang, "value": value}\<close> of a multilingual field.\<close>

definition lang_values :: "(string \<times> string) list option \<Rightarrow> json" where
  "lang_values m =
     (case m of
        None \<Rightarrow> JList []
      | Some items \<Rightarrow>
          JList (map (\<lambda>(lang, v). JDict [(''language'', JStr lang), (''value'', JStr v)]) items))"

section \<open>Record normalizer: journals\<close>

text \<open>
  \<open>upper\<close> stands for \<open>str.upper\<close>, whose results leave the code points that
  \<open>string\<close> holds; it is a parameter of the normalizer.
\<close>

definition subject_area_as_kernel :: "(string \<Rightarrow> string) \<Rightarrow> string \<Rightarrow> json" where
  "subject_area_as_kernel upper subject_area =
     JStr (upper (if upper subject_area = ''LINGUISTICS, LETTERS AND ARTS''
                  then ''LINGUISTIC, LITERATURE AND ARTS'' else subject_area))"

definition status_as_kernel :: "(string \<times> string \<times> string option) list option \<Rightarrow> json" where
  "status_as_kernel history =
     (case history of
        None \<Rightarrow> JDict []
      | Some h \<Rightarrow>
          if h = [] then JDict []
          else (case last h of
                  (date, status, reason) \<Rightarrow>
                    JDict ((''status'', JStr status)
                           # (case reason of
                                None \<Rightarrow> []
                              | Some r \<Rightarrow> if r \<noteq> [] then [(''reason'', JStr r)] else []))))"

text \<open>The entry \<open>k: x\<close> that is stored only when \<open>x\<close> is truthy.\<close>

definition named :: "string \<Rightarrow> string option \<Rightarrow> (string \<times> json) list" where
  "named k x = (case x of None \<Rightarrow> [] | Some s \<Rightarrow> if s \<noteq> [] then [(k, JStr s)] else [])"

definition journal_as_kernel :: "(string \<Rightarrow> string) \<Rightarrow> Journal \<Rightarrow> dict" where
  "journal_as_kernel upper journal =
     [(''_id'',
        (case (if truthy_str (any_issn journal) then any_issn journal else scielo_issn journal) of
           None \<Rightarrow> JNone
         | Some i \<Rightarrow> JStr i)),
      (''mission'', lang_values (mission journal)),
      (''title'', JStr (str_or (title journal) [])),
      (''title_iso'', JStr (str_or (abbreviated_iso_title journal) [])),
      (''short_title'', JStr (str_or (abbreviated_title journal) [])),
      (''acronym'', JStr (str_or (acronym journal) [])),
      (''scielo_issn'', JStr (str_or (scielo_issn journal) [])),
      (''print_issn'', JStr (str_or (print_issn journal) [])),
      (''electronic_issn'', JStr (str_or (electronic_issn journal) [])),
      (''status'', status_as_kernel (status_history journal)),
      (''subject_areas'',
        JList (case subject_areas journal of
                 None \<Rightarrow> []
               | Some areas \<Rightarrow> map (subject_area_as_kernel upper) areas)),
      (''sponsors'',
        JList (case sponsors journal of
                 None \<Rightarrow> []
               | Some names \<Rightarrow> map (\<lambda>sponsor. JDict [(''name'', JStr sponsor)]) names)),
      (''subject_categories'',
        JList (case wos_subject_areas journal of None \<Rightarrow> [] | Some cs \<Rightarrow> map JStr cs)),
      (''online_submission_url'', JStr (str_or (submission_url journal) [])),
      (''next_journal'', JDict (named ''name'' (next_title journal))),
      (''previous_journal'', JDict (named ''name'' (previous_title journal))),
      (''contact'',
        JDict (named ''email'' (editor_email journal) @ named ''address'' (editor_address journal)))]"

section \<open>Record normalizer: issues\<close>

text \<open>
  \<open>datetime.strptime\<close> for the three formats that \<open>parse_date\<close> tries.  The format
  becomes a regular expression matched at the start of the string: \<open>%Y\<close> is four
  decimal digits, \<open>%m\<close> is \<open>1[0-2]|0[1-9]|[1-9]\<close> and \<open>%d\<close> is
  \<open>3[01]|[12]\d|0[1-9]|[1-9]| [1-9]\<close>, alternatives tried in this order.  Text left
  after the match, a year 0 and a day that the month does not have raise
  \<open>ValueError\<close>.  A candidate is the value matched and the text after it.
\<close>

definition char_in :: "char \<Rightarrow> nat \<Rightarrow> nat \<Rightarrow> bool" where
  "char_in c lo hi = (lo \<le> (of_char c :: nat) \<and> (of_char c :: nat) \<le> hi)"

definition digit :: "char \<Rightarrow> nat" where
  "digit c = (of_char c :: nat) - 48"

definition match_Y :: "string \<Rightarrow> (nat \<times> string) list" where
  "match_Y s =
     (if 4 \<le> length s \<and> list_all isdecimal_char (take 4 s)
      then [(digits_value (take 4 s), drop 4 s)] else [])"

definition match_m :: "string \<Rightarrow> (nat \<times> string) list" where
  "match_m s =
     (case s of
        [] \<Rightarrow> []
      | [c] \<Rightarrow> if char_in c 49 57 then [(digit c, [])] else []
      | c # d # r \<Rightarrow>
          (if c = CHR ''1'' \<and> char_in d 48 50 then [(10 + digit d, r)] else [])
          @ (if c = CHR ''0'' \<and> char_in d 49 57 then [(digit d, r)] else [])
          @ (if char_in c 49 57 then [(digit c, d # r)] else []))"

definition match_d :: "string \<Rightarrow> (nat \<times> string) list" where
  "match_d s =
     (case s of
        [] \<Rightarrow> []
      | [c] \<Rightarrow> if char_in c 49 57 then [(digit c, [])] else []
      | c # d # r \<Rightarrow>
          (if c = CHR ''3'' \<and> char_in d 48 49 then [(30 + digit d, r)] else [])
          @ (if char_in c 49 50 \<and> char_in d 48 57 then [(10 * digit c + digit d, r)] else [])
          @ (if c = CHR ''0'' \<and> char_in d 49 57 then [(digit d, r)] else [])
          @ (if char_in c 49 57 then [(digit c, d # r)] else [])
          @ (if c = CHR '' '' \<and> char_in d 49 57 then [(digit d, r)] else []))"

definition match_dash :: "string \<Rightarrow> string list" where
  "match_dash s = (case s of [] \<Rightarrow> [] | c # r \<Rightarrow> if c = CHR ''-'' then [r] else [])"

definition is_leap :: "nat \<Rightarrow> bool" where
  "is_leap y = (y mod 4 = 0 \<and> (y mod 100 \<noteq> 0 \<or> y mod 400 = 0))"

definition days_in_month :: "nat \<Rightarrow> nat \<Rightarrow> nat" where
  "days_in_month y m =
     (if m = 2 then (if is_leap y then 29 else 28)
      else if m = 4 \<or> m = 6 \<or> m = 9 \<or> m = 11 then 30 else 31)"

text \<open>
  The first way to match the whole pattern, in the order of the alternatives, decides:
  the date it reads and the text it leaves.
\<close>

definition finish :: "((nat \<times> nat \<times> nat) \<times> string) list \<Rightarrow> error + nat \<times> nat \<times> nat" where
  "finish found =
     (case found of
        [] \<Rightarrow> Inl ValueError
      | ((y, m, d), rest) # _ \<Rightarrow>
          if rest \<noteq> [] then Inl ValueError
          else if y = 0 \<or> days_in_month y m < d then Inl ValueError
          else Inr (y, m, d))"

definition strptime_Ymd :: "string \<Rightarrow> error + nat \<times> nat \<times> nat" where
  "strptime_Ymd s =
     finish (concat (map (\<lambda>(y, r1). concat (map (\<lambda>r2. concat (map (\<lambda>(m, r3).
               concat (map (\<lambda>r4. map (\<lambda>(d, r5). ((y, m, d), r5)) (match_d r4)) (match_dash r3)))
             (match_m r2))) (match_dash r1))) (match_Y s)))"

definition strptime_Ym :: "string \<Rightarrow> error + nat \<times> nat \<times> nat" where
  "strptime_Ym s =
     finish (concat (map (\<lambda>(y, r1). concat (map (\<lambda>r2. map (\<lambda>(m, r3). ((y, m, 1), r3))
             (match_m r2)) (match_dash r1))) (match_Y s)))"

definition strptime_Y :: "string \<Rightarrow> error + nat \<times> nat \<times> nat" where
  "strptime_Y s = finish (map (\<lambda>(y, r1). ((y, 1, 1), r1)) (match_Y s))"

text \<open>
  \<open>parse_date\<close>: a \<open>ValueError\<close> of one format leads to the next one; the last
  one's is raised.  A date that is \<open>None\<close> raises \<open>TypeError\<close>, which is not caught.
\<close>

definition parse_date :: "string option \<Rightarrow> error + nat \<times> nat \<times> nat" where
  "parse_date date =
     (case date of
        None \<Rightarrow> Inl TypeError
      | Some s \<Rightarrow>
          (case strptime_Ymd s of
             Inr d \<Rightarrow> Inr d
           | Inl _ \<Rightarrow> (case strptime_Ym s of Inr d \<Rightarrow> Inr d | Inl _ \<Rightarrow> strptime_Y s)))"

text \<open>
  The comparison \<open>issue.type is "supplement"\<close> is an identity test against a string
  constant.  The decoder returns its type tags as string constants, which the interpreter
  shares, so that the test holds exactly when the tag reads \<open>supplement\<close>.
\<close>

definition is_str :: "string \<Rightarrow> string \<Rightarrow> bool" where
  "is_str a b = (a = b)"

text \<open>\<open>sorted(set([int(start_month), int(end_month)]))\<close>, or the empty list.\<close>

definition publication_season :: "Issue \<Rightarrow> error + json" where
  "publication_season issue =
     (if truthy_str (start_month issue) \<and> truthy_str (end_month issue) then
        (case py_int (the (start_month issue)) of
           Inl e \<Rightarrow> Inl e
         | Inr a \<Rightarrow>
             (case py_int (the (end_month issue)) of
                Inl e \<Rightarrow> Inl e
              | Inr b \<Rightarrow>
                  Inr (JList (if a = b then [JInt a] else [JInt (min a b), JInt (max a b)]))))
      else Inr (JList []))"

text \<open>\<open>issue.data.get("issue").get("v35")[0]["_"]\<close>.\<close>

definition issn_of :: "Issue \<Rightarrow> error + string" where
  "issn_of issue =
     (case v35 issue of
        None \<Rightarrow> Inl TypeError
      | Some [] \<Rightarrow> Inl IndexError
      | Some (None # _) \<Rightarrow> Inl KeyError
      | Some (Some i # _) \<Rightarrow> Inr i)"

text \<open>
  The entry \<open>supplement\<close> of the payload, stored only under the type test; it is also
  what \<open>_payload.get("supplement")\<close> reads back for the identity.
\<close>

definition supplement_of :: "Issue \<Rightarrow> string option" where
  "supplement_of issue =
     (if is_str (issue_type issue) ''supplement''
      then Some (str_or (supplement_volume issue) (str_or (supplement_number issue) ''0''))
      else None)"

definition issue_as_kernel :: "Issue \<Rightarrow> error + dict" where
  "issue_as_kernel issue =
     (let payload =
            [(''volume'', JStr (str_or (volume issue) [])),
             (''number'', JStr (str_or (number issue) []))]
            @ (case supplement_of issue of None \<Rightarrow> [] | Some s \<Rightarrow> [(''supplement'', JStr s)])
            @ [(''titles'', lang_values (titles issue))]
      in case publication_season issue of
           Inl e \<Rightarrow> Inl e
         | Inr season \<Rightarrow>
             (case issn_of issue of
                Inl e \<Rightarrow> Inl e
              | Inr issn_id \<Rightarrow>
                  (case parse_date (publication_date issue) of
                     Inl e \<Rightarrow> Inl e
                   | Inr (year, month, day) \<Rightarrow>
                       (case issue_id (Some issn_id) (Some (py_str (int year)))
                               (volume issue) (number issue) (supplement_of issue) of
                          Inl e \<Rightarrow> Inl e
                        | Inr i \<Rightarrow>
                            Inr (payload @ [(''publication_season'', season), (''_id'', JStr i)])))))"

section \<open>Reconciliation client\<close>

text \<open>
  A request of the HTTP hook: its method, the endpoint and the JSON body.  A response:
  its status code and what \<open>response.json()["metadata"]\<close> yields (\<open>None\<close> when the body
  has no such entry, which raises).
\<close>

datatype http_method = GET | PUT | PATCH

record request =
  req_method :: http_method
  req_endpoint :: string
  req_data :: "dict option"

record response =
  status_code :: nat
  json_metadata :: "dict option"

text \<open>
  The hook is a parameter: \<open>run\<close> answers a request in a state of the world \<open>'w\<close> and
  returns the next state.  The hook is called with \<open>check_response\<close> off, so that a
  status code is never an exception; an exception of the transport itself is \<open>Inl\<close>.
\<close>

type_synonym 'w hook = "request \<Rightarrow> 'w \<Rightarrow> (error + response) \<times> 'w"

text \<open>The two dictionary comprehensions that filter the payload.\<close>

definition create_payload :: "dict \<Rightarrow> dict" where
  "create_payload payload = filter (\<lambda>(k, v). truthy v) payload"

definition patch_payload :: "dict \<Rightarrow> dict \<Rightarrow> dict" where
  "patch_payload metadata payload =
     filter (\<lambda>(k, v). truthy (dict_get metadata k) \<or> py_eq (dict_get metadata k) v \<or> truthy v)
       payload"

definition register_or_update ::
  "'w hook \<Rightarrow> string \<Rightarrow> dict \<Rightarrow> string \<Rightarrow> 'w \<Rightarrow> (error + response) \<times> 'w" where
  "register_or_update run id' payload entity_url w =
     (case run \<lparr>req_method = GET, req_endpoint = entity_url @ id', req_data = None\<rparr> w of
        (Inl e, w1) \<Rightarrow> (Inl e, w1)
      | (Inr response, w1) \<Rightarrow>
          if status_code response = 404 then
            run \<lparr>req_method = PUT, req_endpoint = entity_url @ id',
                 req_data = Some (create_payload payload)\<rparr> w1
          else if status_code response = 200 then
            (case json_metadata response of
               None \<Rightarrow> (Inl KeyError, w1)
             | Some metadata \<Rightarrow>
                 if DeepDiff (JDict metadata) (JDict (patch_payload metadata payload)) then
                   run \<lparr>req_method = PATCH, req_endpoint = entity_url @ id',
                        req_data = Some (patch_payload metadata payload)\<rparr> w1
                 else (Inr response, w1))
          else (Inr response, w1))"

text \<open>
  A hook that also records, in order, the requests it is given; the record shows which
  writes a call has issued.
\<close>

definition logged :: "'w hook \<Rightarrow> (request list \<times> 'w) hook" where
  "logged run req lw =
     (case run req (snd lw) of (r, w') \<Rightarrow> (r, (fst lw @ [req], w')))"

section \<open>The remote metadata store\<close>

text \<open>
  Modelled from the spec: the remote store is an external collaborator, reached through
  the hook.  Its interface: \<open>GET\<close> answers 200 with the stored metadata on a hit and 404
  on a miss; \<open>PUT\<close> creates the entity from the body; \<open>PATCH\<close> merges the body into the
  existing entity.  The store maps an endpoint to the metadata of its entity.
\<close>

type_synonym kernel = "(string \<times> dict) list"

definition merge :: "dict \<Rightarrow> dict \<Rightarrow> dict" where
  "merge old new = filter (\<lambda>(k, v). map_of new k = None) old @ new"

definition kernel_run :: "kernel hook" where
  "kernel_run req store =
     (case req_method req of
        GET \<Rightarrow>
          (case map_of store (req_endpoint req) of
             None \<Rightarrow> (Inr \<lparr>status_code = 404, json_metadata = None\<rparr>, store)
           | Some metadata \<Rightarrow> (Inr \<lparr>status_code = 200, json_metadata = Some metadata\<rparr>, store))
      | PUT \<Rightarrow>
          (Inr \<lparr>status_code = 201, json_metadata = None\<rparr>,
           (req_endpoint req, (case req_data req of None \<Rightarrow> [] | Some body \<Rightarrow> body)) # store)
      | PATCH \<Rightarrow>
          (case map_of store (req_endpoint req) of
             None \<Rightarrow> (Inr \<lparr>status_code = 404, json_metadata = None\<rparr>, store)
           | Some metadata \<Rightarrow>
               (Inr \<lparr>status_code = 204, json_metadata = None\<rparr>,
                (req_endpoint req,
                 merge metadata (case req_data req of None \<Rightarrow> [] | Some body \<Rightarrow> body)) # store)))"

section \<open>Batch drivers\<close>

text \<open>
  \<open>entity.pop("_id")\<close> and the endpoint \<open>"{}{}".format(entity_url, _id)\<close>.  The
  normalizers store a string or \<open>None\<close> under \<open>_id\<close>; \<open>None\<close> is rendered as the text
  \<open>None\<close>.  A missing key raises \<open>KeyError\<close>.  Other kinds of value are never stored
  under \<open>_id\<close> and are not rendered here.
\<close>

definition pop_id :: "dict \<Rightarrow> error + string \<times> dict" where
  "pop_id entity =
     (case map_of entity ''_id'' of
        None \<Rightarrow> Inl KeyError
      | Some JNone \<Rightarrow> Inr (''None'', filter (\<lambda>(k, v). k \<noteq> ''_id'') entity)
      | Some (JStr s) \<Rightarrow> Inr (s, filter (\<lambda>(k, v). k \<noteq> ''_id'') entity)
      | Some _ \<Rightarrow> Inl TypeError)"

text \<open>
  The loop over the normalized entities.  The response of each call is bound to a
  variable that nothing reads; an exception leaves the loop.
\<close>

fun reconcile_all :: "'w hook \<Rightarrow> string \<Rightarrow> dict list \<Rightarrow> 'w \<Rightarrow> (error + unit) \<times> 'w" where
  "reconcile_all run entity_url [] w = (Inr (), w)"
| "reconcile_all run entity_url (entity # entities) w =
     (case pop_id entity of
        Inl e \<Rightarrow> (Inl e, w)
      | Inr (id', body) \<Rightarrow>
          (case register_or_update run id' body entity_url w of
             (Inl e, w') \<Rightarrow> (Inl e, w')
           | (Inr response, w') \<Rightarrow> reconcile_all run entity_url entities w'))"

text \<open>A list comprehension whose element function may raise: the first exception wins.\<close>

fun map_raise :: "('a \<Rightarrow> error + 'b) \<Rightarrow> 'a list \<Rightarrow> error + 'b list" where
  "map_raise f [] = Inr []"
| "map_raise f (x # xs) =
     (case f x of
        Inl e \<Rightarrow> Inl e
      | Inr y \<Rightarrow> (case map_raise f xs of Inl e \<Rightarrow> Inl e | Inr ys \<Rightarrow> Inr (y # ys)))"

definition KERNEL_API_JOURNAL_ENDPOINT :: string where
  "KERNEL_API_JOURNAL_ENDPOINT = ''/journals/''"

definition KERNEL_API_BUNDLES_ENDPOINT :: string where
  "KERNEL_API_BUNDLES_ENDPOINT = ''/bundles/''"

text \<open>
  The input of a driver is what pulling and decoding the stream of the reading task
  yields: the list of records, or the exception raised when the stream cannot be
  obtained.
\<close>

definition process_journals ::
  "(string \<Rightarrow> string) \<Rightarrow> 'w hook \<Rightarrow> error + Journal list \<Rightarrow> 'w \<Rightarrow> (error + unit) \<times> 'w" where
  "process_journals upper run stream w =
     (case stream of
        Inl e \<Rightarrow> (Inl e, w)
      | Inr journals \<Rightarrow>
          reconcile_all run KERNEL_API_JOURNAL_ENDPOINT (map (journal_as_kernel upper) journals) w)"

definition filter_issues :: "Issue list \<Rightarrow> Issue list" where
  "filter_issues issues =
     fold (\<lambda>f issues. filter f issues)
       [\<lambda>issue. \<not> issue_type issue = ''pressrelease'', \<lambda>issue. \<not> issue_type issue = ''ahead'']
       issues"

definition process_issues ::
  "'w hook \<Rightarrow> error + Issue list \<Rightarrow> 'w \<Rightarrow> (error + unit) \<times> 'w" where
  "process_issues run stream w =
     (case stream of
        Inl e \<Rightarrow> (Inl e, w)
      | Inr issues \<Rightarrow>
          (case map_raise issue_as_kernel (filter_issues issues) of
             Inl e \<Rightarrow> (Inl e, w)
           | Inr issues_as_kernel \<Rightarrow>
               reconcile_all run KERNEL_API_BUNDLES_ENDPOINT issues_as_kernel w))"

section \<open>Definitions that state the properties\<close>

text \<open>
  A component of the bundle identity as the specification words it: nothing for a value
  that is absent (\<open>None\<close> or empty), else the prefix followed by the value, where a
  value made of decimal digits is re-rendered from the integer it denotes.
\<close>

definition bundle_component :: "string \<Rightarrow> string option \<Rightarrow> string list" where
  "bundle_component prefix x =
     (case x of
        None \<Rightarrow> []
      | Some v \<Rightarrow>
          if v = [] then []
          else [prefix @ (if isdecimal v then py_str (int (digits_value v)) else v)])"

text \<open>The ISSN or the year when it is truthy.\<close>

definition present :: "string option \<Rightarrow> string list" where
  "present x = (case x of None \<Rightarrow> [] | Some v \<Rightarrow> if v = [] then [] else [v])"

text \<open>
  A numeric-looking optional value: absent, or made of decimal digits, no more of them
  than \<open>int\<close> reads.
\<close>

definition numeric :: "string option \<Rightarrow> bool" where
  "numeric x =
     (case x of None \<Rightarrow> True | Some v \<Rightarrow> isdecimal v \<and> length v \<le> max_str_digits)"

text \<open>
  An optional value on which \<open>str(int(value))\<close> cannot raise under the guard
  \<open>value.isdigit()\<close>: whenever the guard holds, the digits are decimal and no more than
  \<open>int\<close> reads.
\<close>

definition roundtrips :: "string option \<Rightarrow> bool" where
  "roundtrips x =
     (case x of
        None \<Rightarrow> True
      | Some v \<Rightarrow> \<not> isdigit v \<or> (isdecimal v \<and> length v \<le> max_str_digits))"

text \<open>\<open>zeros k v\<close> is \<open>v\<close> behind \<open>k\<close> leading zeros.\<close>

definition zeros :: "nat \<Rightarrow> string \<Rightarrow> string" where
  "zeros k v = replicate k CHR ''0'' @ v"

text \<open>
  The first truthy one of two optional strings, else the default: the value of
  \<open>a or b or default\<close>.
\<close>

definition first_truthy :: "string option \<Rightarrow> string option \<Rightarrow> string \<Rightarrow> string" where
  "first_truthy a b d = (if truthy_str a then the a else if truthy_str b then the b else d)"

text \<open>A value that is a string, a list or a mapping, empty or not.\<close>

fun str_list_or_dict :: "json \<Rightarrow> bool" where
  "str_list_or_dict (JStr s) = True"
| "str_list_or_dict (JList xs) = True"
| "str_list_or_dict (JDict d) = True"
| "str_list_or_dict v = False"

text \<open>
  \<open>str.upper\<close> on strings of ASCII characters, the instance of \<open>upper\<close> at which the
  journal normalizer is evaluated.
\<close>

definition ascii_upper :: "string \<Rightarrow> string" where
  "ascii_upper s =
     map (\<lambda>c. if 97 \<le> (of_char c :: nat) \<and> (of_char c :: nat) \<le> 122
              then char_of ((of_char c :: nat) - 32) else c) s"

text \<open>The three requests that the client issues for an endpoint.\<close>

definition GET_request :: "string \<Rightarrow> request" where
  "GET_request e = \<lparr>req_method = GET, req_endpoint = e, req_data = None\<rparr>"

definition PUT_request :: "string \<Rightarrow> dict \<Rightarrow> request" where
  "PUT_request e body = \<lparr>req_method = PUT, req_endpoint = e, req_data = Some body\<rparr>"

definition PATCH_request :: "string \<Rightarrow> dict \<Rightarrow> request" where
  "PATCH_request e body = \<lparr>req_method = PATCH, req_endpoint = e, req_data = Some body\<rparr>"

text \<open>
  A transport without state that answers every request with the same status code and no
  metadata, and one whose every request raises.
\<close>

definition answering :: "nat \<Rightarrow> unit hook" where
  "answering code req w = (Inr \<lparr>status_code = code, json_metadata = None\<rparr>, w)"

definition unreachable :: "unit hook" where
  "unreachable req w = (Inl TransportError, w)"

text \<open>
  A transport that never raises and whose 200 responses carry metadata; the endpoints
  probed in a record of requests; the identifier popped from a normalized entity.
\<close>

definition answers :: "'w hook \<Rightarrow> bool" where
  "answers run =
     (\<forall>req w. \<exists>resp. fst (run req w) = Inr resp
                  \<and> (status_code resp \<noteq> 200 \<or> json_metadata resp \<noteq> None))"

definition probed :: "request list \<Rightarrow> string list" where
  "probed reqs = map req_endpoint (filter (\<lambda>r. req_method r = GET) reqs)"

definition entity_id :: "dict \<Rightarrow> string" where
  "entity_id entity = (case pop_id entity of Inl e \<Rightarrow> [] | Inr (i, body) \<Rightarrow> i)"

text \<open>The fixed keys of the journal payload, in the order in which they are stored.\<close>

definition schema_keys :: "string list" where
  "schema_keys = [''_id'', ''mission'', ''title'', ''title_iso'', ''short_title'', ''acronym'',
     ''scielo_issn'', ''print_issn'', ''electronic_issn'', ''status'', ''subject_areas'',
     ''sponsors'', ''subject_categories'', ''online_submission_url'', ''next_journal'',
     ''previous_journal'', ''contact'']"

section \<open>Facts about the string functions\<close>

lemma isdecimal_isdigit: "isdecimal v \<Longrightarrow> isdigit v"
  by (auto simp: isdecimal_def isdigit_def isdigit_char_def list_all_iff)

lemma decimal_not_space: "isdecimal_char c \<Longrightarrow> \<not> int_space c"
  by (auto simp: isdecimal_char_def int_space_def)

lemma decimal_not_sign:
  "isdecimal_char c \<Longrightarrow> c \<noteq> CHR ''+'' \<and> c \<noteq> CHR ''-'' \<and> c \<noteq> CHR ''_''"
  by (auto simp: isdecimal_char_def)

lemma underscores_ok_decimal: "v \<noteq> [] \<Longrightarrow> list_all isdecimal_char v \<Longrightarrow> underscores_ok v"
  by (induction v rule: underscores_ok.induct) (auto dest: decimal_not_sign)

text \<open>
  On decimal digits, \<open>int\<close> reads the decimal value when there are no more of them than
  \<open>max_str_digits\<close>, and raises otherwise.
\<close>

lemma py_int_decimal_cases:
  assumes d: "isdecimal v"
  shows "py_int v = (if length v \<le> max_str_digits then Inr (int (digits_value v))
                     else Inl ValueError)"
proof -
  from d obtain c r where v: "v = c # r" and c: "isdecimal_char c" and r: "list_all isdecimal_char r"
    by (cases v) (auto simp: isdecimal_def)
  have all: "list_all isdecimal_char v" using v c r by simp
  have t: "dropWhile int_space v = v"
    using v decimal_not_space[OF c] by simp
  have neg: "(case v of [] \<Rightarrow> False | c # _ \<Rightarrow> c = CHR ''-'') = False"
    using v decimal_not_sign[OF c] by simp
  have u: "(case v of [] \<Rightarrow> [] | c # r \<Rightarrow> if c = CHR ''+'' \<or> c = CHR ''-'' then r else v) = v"
    using v decimal_not_sign[OF c] by simp
  have tw: "takeWhile (\<lambda>c. isdecimal_char c \<or> c = CHR ''_'') v = v"
    using all by (simp add: list_all_iff takeWhile_eq_all_conv)
  have dw: "dropWhile (\<lambda>c. isdecimal_char c \<or> c = CHR ''_'') v = []"
    using all by (simp add: list_all_iff)
  have f: "filter isdecimal_char v = v" using all by (simp add: list_all_iff)
  have uo: "underscores_ok v" using v all by (intro underscores_ok_decimal) simp_all
  have ne: "v \<noteq> []" and h: "hd v \<noteq> CHR ''_''"
    using v decimal_not_sign[OF c] by simp_all
  show ?thesis
    unfolding py_int_def Let_def t neg u tw dw f
    using uo ne h by simp
qed

lemma py_int_decimal:
  "isdecimal v \<Longrightarrow> length v \<le> max_str_digits \<Longrightarrow> py_int v = Inr (int (digits_value v))"
  by (simp add: py_int_decimal_cases)

lemma py_int_too_long:
  "isdecimal v \<Longrightarrow> max_str_digits < length v \<Longrightarrow> py_int v = Inl ValueError"
  by (simp add: py_int_decimal_cases)

lemma digits_value_zeros: "digits_value (zeros k v) = digits_value v"
proof -
  have "foldl (\<lambda>a c. 10 * a + ((of_char c :: nat) - 48)) 0 (replicate k CHR ''0'') = 0"
    by (induction k) simp_all
  then show ?thesis by (simp add: digits_value_def zeros_def)
qed

lemma isdecimal_zeros: "isdecimal v \<Longrightarrow> isdecimal (zeros k v)"
  by (auto simp: isdecimal_def isdecimal_char_def list_all_iff zeros_def)

lemma bundle_component_zeros:
  "numeric x \<Longrightarrow> bundle_component p (map_option (zeros k) x) = bundle_component p x"
  by (cases x)
     (auto simp: numeric_def bundle_component_def isdecimal_zeros digits_value_zeros,
      auto simp: zeros_def isdecimal_def)

lemma numeric_roundtrips: "numeric x \<Longrightarrow> roundtrips x"
  by (cases x) (simp_all add: numeric_def roundtrips_def)

section \<open>Facts about the bundle identity\<close>

lemma id_tail_roundtrips:
  "roundtrips (data_get data label) \<Longrightarrow>
   id_tail data ((label, p) # labels) =
     (case id_tail data labels of
        Inl e \<Rightarrow> Inl e
      | Inr rest \<Rightarrow> Inr (bundle_component p (data_get data label) @ rest))"
  by (cases "data_get data label")
     (auto simp: roundtrips_def bundle_component_def py_int_decimal isdecimal_isdigit
           split: sum.splits)

text \<open>
  With components on which the integer round trip cannot raise, the identity is the join
  of the truthy components in their fixed order; a falsy ISSN or year is left out like
  any other falsy component.
\<close>

lemma id_head_present:
  "id_head data (label # labels) = present (data_get data label) @ id_head data labels"
  by (cases "data_get data label") (simp_all add: present_def)

lemma issue_id_omits_falsy:
  assumes "roundtrips vol" "roundtrips num" "roundtrips supp"
  shows "issue_id issn year vol num supp =
     Inr (join ''-'' (present issn @ present year @ bundle_component ''v'' vol
            @ bundle_component ''n'' num @ bundle_component ''s'' supp))"
proof -
  let ?data = "[(''issn_id'', issn), (''year'', year), (''volume'', vol),
                (''number'', num), (''supplement'', supp)]"
  have z: "zip [''issn_id'', ''year'', ''volume'', ''number'', ''supplement'']
             [issn, year, vol, num, supp] = ?data"
    by simp
  have g: "data_get ?data ''issn_id'' = issn" "data_get ?data ''year'' = year"
    "data_get ?data ''volume'' = vol" "data_get ?data ''number'' = num"
    "data_get ?data ''supplement'' = supp"
    by (simp_all add: data_get_def)
  have h: "id_head ?data [''issn_id'', ''year''] = present issn @ present year"
    by (simp add: id_head_present g del: id_head.simps(2))
  have t: "id_tail ?data [(''volume'', ''v''), (''number'', ''n''), (''supplement'', ''s'')] =
      Inr (bundle_component ''v'' vol @ bundle_component ''n'' num @ bundle_component ''s'' supp)"
    using assms by (simp add: id_tail_roundtrips g del: id_tail.simps(2))
  show ?thesis
    unfolding issue_id_def Let_def z t h by simp
qed

lemma issue_id_formula:
  assumes "issn \<noteq> []" "year \<noteq> []" "roundtrips vol" "roundtrips num" "roundtrips supp"
  shows "issue_id (Some issn) (Some year) vol num supp =
     Inr (join ''-'' ([issn, year] @ bundle_component ''v'' vol @ bundle_component ''n'' num
            @ bundle_component ''s'' supp))"
  using issue_id_omits_falsy[OF assms(3-5), of "Some issn" "Some year"] assms(1,2)
  by (simp add: present_def)

text \<open>An all-digit volume on which \<open>int\<close> raises makes \<open>issue_id\<close> raise.\<close>

lemma issue_id_volume_raises:
  assumes "isdigit v" and "py_int v = Inl e"
  shows "issue_id issn year (Some v) num supp = Inl e"
proof -
  have "v \<noteq> []" using assms(1) by (simp add: isdigit_def)
  then show ?thesis
    unfolding issue_id_def Let_def using assms by (simp add: data_get_def)
qed

text \<open>
  C4, as the code has it.  For every ISSN and year and numeric-looking volume, number and
  supplement (decimal digits, no more than \<open>int\<close> reads), the identity does not
  depend on leading zeros: \<open>("01", "2")\<close> and \<open>("1", "02")\<close> give the same identity,
  which is \<open>{issn}-{year}-v1-n2\<close> when the ISSN and the year are not empty; each
  component made of digits is re-rendered from its integer value, and the truthy components
  are joined with \<open>-\<close> in the fixed order issn, year, \<open>v\<close>volume, \<open>n\<close>number,
  \<open>s\<close>supplement, the others omitted, an empty ISSN or year among them.
\<close>

theorem issue_id_leading_zeros:
  assumes "numeric vol" and "numeric num" and "numeric supp"
    and "numeric (map_option (zeros a) vol)" and "numeric (map_option (zeros b) num)"
    and "numeric (map_option (zeros c) supp)"
  shows "issue_id issn year (Some ''01'') (Some ''2'') None
           = Inr (join ''-'' (present issn @ present year @ [''v1'', ''n2'']))
       \<and> issue_id issn year (Some ''1'') (Some ''02'') None
           = Inr (join ''-'' (present issn @ present year @ [''v1'', ''n2'']))
       \<and> (if i \<noteq> [] \<and> y \<noteq> []
          then issue_id (Some i) (Some y) (Some ''01'') (Some ''2'') None
                 = Inr (i @ ''-'' @ y @ ''-v1-n2'')
          else issue_id (Some i) (Some y) (Some ''01'') (Some ''2'') None
                 = Inr (join ''-'' (present (Some i) @ present (Some y) @ [''v1'', ''n2''])))
       \<and> issue_id issn year vol num supp
           = Inr (join ''-'' (present issn @ present year @ bundle_component ''v'' vol
                    @ bundle_component ''n'' num @ bundle_component ''s'' supp))
       \<and> issue_id issn year
             (map_option (zeros a) vol) (map_option (zeros b) num) (map_option (zeros c) supp)
           = issue_id issn year vol num supp"
proof -
  have d: "isdecimal ''01''" "isdecimal ''2''" "isdecimal ''1''" "isdecimal ''02''"
    by (simp_all add: isdecimal_def isdecimal_char_def)
  have r: "roundtrips (Some ''01'')" "roundtrips (Some ''2'')" "roundtrips (Some ''1'')"
    "roundtrips (Some ''02'')" "roundtrips None"
    by (simp_all add: roundtrips_def d max_str_digits_def)
  have v: "py_str (int (digits_value ''01'')) = ''1''" "py_str (int (digits_value ''2'')) = ''2''"
    "py_str (int (digits_value ''1'')) = ''1''" "py_str (int (digits_value ''02'')) = ''2''"
    by code_simp+
  have c: "bundle_component ''v'' (Some ''01'') = [''v1'']"
    "bundle_component ''n'' (Some ''2'') = [''n2'']"
    "bundle_component ''v'' (Some ''1'') = [''v1'']"
    "bundle_component ''n'' (Some ''02'') = [''n2'']"
    "bundle_component ''s'' None = []"
    by (simp_all add: bundle_component_def d v)
  have one: "issue_id issn year (Some ''01'') (Some ''2'') None
      = Inr (join ''-'' (present issn @ present year @ [''v1'', ''n2'']))" for issn year
    using issue_id_omits_falsy[OF r(1) r(2) r(5), of issn year] by (simp add: c)
  have two: "issue_id issn year (Some ''1'') (Some ''02'') None
      = Inr (join ''-'' (present issn @ present year @ [''v1'', ''n2'']))"
    using issue_id_omits_falsy[OF r(3) r(4) r(5), of issn year] by (simp add: c)
  have form: "if i \<noteq> [] \<and> y \<noteq> []
          then issue_id (Some i) (Some y) (Some ''01'') (Some ''2'') None
                 = Inr (i @ ''-'' @ y @ ''-v1-n2'')
          else issue_id (Some i) (Some y) (Some ''01'') (Some ''2'') None
                 = Inr (join ''-'' (present (Some i) @ present (Some y) @ [''v1'', ''n2'']))"
    by (simp add: one present_def)
  have three: "issue_id issn year vol num supp
      = Inr (join ''-'' (present issn @ present year @ bundle_component ''v'' vol
               @ bundle_component ''n'' num @ bundle_component ''s'' supp))"
    using assms(1-3) by (intro issue_id_omits_falsy numeric_roundtrips)
  have padded: "issue_id issn year
        (map_option (zeros a) vol) (map_option (zeros b) num) (map_option (zeros c) supp)
      = Inr (join ''-'' (present issn @ present year
               @ bundle_component ''v'' (map_option (zeros a) vol)
               @ bundle_component ''n'' (map_option (zeros b) num)
               @ bundle_component ''s'' (map_option (zeros c) supp)))"
    using assms(4-6) by (intro issue_id_omits_falsy numeric_roundtrips)
  have four: "issue_id issn year
        (map_option (zeros a) vol) (map_option (zeros b) num) (map_option (zeros c) supp)
      = issue_id issn year vol num supp"
    using assms(1-3) by (simp add: three padded bundle_component_zeros)
  show ?thesis
    by (intro conjI) (rule one, rule two, rule form, rule three, rule four)
qed

theorem issue_id_leading_zeros_witness:
  "numeric (Some ''7'') \<and> numeric None \<and> numeric (Some ''10'')
   \<and> numeric (Some ''007'') \<and> numeric (Some ''010'')
   \<and> issue_id (Some ''0001-0002'') (Some ''2019'') (Some ''01'') (Some ''2'') None
        = Inr ''0001-0002-2019-v1-n2''
   \<and> issue_id (Some ''0001-0002'') (Some ''2019'') (Some ''1'') (Some ''02'') None
        = Inr ''0001-0002-2019-v1-n2''
   \<and> issue_id (Some ''0001-0002'') (Some ''2019'') (Some ''007'') None (Some ''010'')
        = issue_id (Some ''0001-0002'') (Some ''2019'') (Some ''7'') None (Some ''10'')
   \<and> issue_id (Some ''0001-0002'') (Some ''2019'') (Some ''7'') None (Some ''10'')
        = Inr ''0001-0002-2019-v7-s10''"
proof -
  have z: "zeros 2 ''7'' = ''007''" "zeros 0 [] = []" "zeros (Suc 0) ''10'' = ''010''"
    by (simp_all add: zeros_def numeral_2_eq_2)
  have h: "numeric (Some ''7'')" "numeric None" "numeric (Some ''10'')"
    "numeric (map_option (zeros 2) (Some ''7''))" "numeric (map_option (zeros 0) None)"
    "numeric (map_option (zeros (Suc 0)) (Some ''10''))"
    by (simp_all add: z numeric_def isdecimal_def isdecimal_char_def max_str_digits_def)
  have p: "present (Some ''0001-0002'') = [''0001-0002'']" "present (Some ''2019'') = [''2019'']"
    by (simp_all add: present_def)
  have c: "bundle_component ''v'' (Some ''7'') = [''v7'']"
    "bundle_component ''n'' None = []"
    "bundle_component ''s'' (Some ''10'') = [''s10'']"
    by code_simp+
  show ?thesis
    using h issue_id_leading_zeros[OF h, where issn = "Some ''0001-0002''"
        and year = "Some ''2019''" and i = "''0001-0002''" and y = "''2019''"]
    by (simp add: z c p)
qed

text \<open>
  The claim as stated fails twice.  With an empty ISSN the identity starts with the
  year, and is not \<open>{issn}-{year}-v1-n2\<close>.  A volume of one digit behind 4300 leading
  zeros is all digits and is more than \<open>int\<close> reads: the identity is not computed.
\<close>

theorem issue_id_empty_issn:
  "issue_id (Some []) (Some ''2019'') (Some ''01'') (Some ''2'') None = Inr ''2019-v1-n2''
   \<and> ''2019-v1-n2'' \<noteq> [] @ ''-'' @ ''2019'' @ ''-v1-n2''
   \<and> issue_id (Some ''0001-0002'') (Some ''2019'') (Some (zeros 4300 ''1'')) None None
        = Inl ValueError"
proof -
  have one: "issue_id (Some []) (Some ''2019'') (Some ''01'') (Some ''2'') None
      = Inr ''2019-v1-n2''"
    by code_simp
  have d: "isdecimal (zeros 4300 ''1'')"
    by (rule isdecimal_zeros) (simp add: isdecimal_def isdecimal_char_def)
  have l: "max_str_digits < length (zeros 4300 ''1'')"
    by (simp add: zeros_def max_str_digits_def)
  have two: "issue_id (Some ''0001-0002'') (Some ''2019'') (Some (zeros 4300 ''1'')) None None
      = Inl ValueError"
    by (rule issue_id_volume_raises[OF isdecimal_isdigit[OF d] py_int_too_long[OF d l]])
  show ?thesis using one two by simp
qed

text \<open>
  C10.  A component such as the superscript two passes \<open>isdigit\<close> and is not a literal
  that \<open>int\<close> reads: \<open>issue_id\<close> raises \<open>ValueError\<close> there.
\<close>

theorem issue_id_superscript_digit:
  "issue_id (Some ''0001-0002'') (Some ''2019'') (Some [CHR 0xB2]) None None = Inl ValueError"
  by code_simp

section \<open>Facts about the issue normalizer\<close>

text \<open>What a returned payload says about the steps that built it.\<close>

lemma issue_as_kernel_Inr:
  assumes "issue_as_kernel issue = Inr payload"
  shows "\<exists>season issn y m d i.
      publication_season issue = Inr season \<and> issn_of issue = Inr issn
    \<and> parse_date (publication_date issue) = Inr (y, m, d)
    \<and> issue_id (Some issn) (Some (py_str (int y))) (volume issue) (number issue)
         (supplement_of issue) = Inr i
    \<and> payload =
        [(''volume'', JStr (str_or (volume issue) [])),
         (''number'', JStr (str_or (number issue) []))]
        @ (case supplement_of issue of None \<Rightarrow> [] | Some s \<Rightarrow> [(''supplement'', JStr s)])
        @ [(''titles'', lang_values (titles issue)), (''publication_season'', season),
           (''_id'', JStr i)]"
  using assms unfolding issue_as_kernel_def Let_def
  by (auto split: sum.splits prod.splits)

lemma str_or_first: "str_or a (str_or b d) = first_truthy a b d"
  by (cases a; cases b) (auto simp: str_or_def first_truthy_def)

text \<open>
  C5.  A payload that the issue normalizer returns has the key \<open>supplement\<close> exactly
  when the type tag of the record is \<open>supplement\<close>; its value is then the
  supplement-volume indicator, else the supplement-number indicator, else \<open>"0"\<close>.
\<close>

theorem supplement_gating:
  assumes "issue_as_kernel issue = Inr payload"
  shows "(''supplement'' \<in> fst ` set payload) = (issue_type issue = ''supplement'')
       \<and> (if issue_type issue = ''supplement''
          then map_of payload ''supplement''
                 = Some (JStr (first_truthy (supplement_volume issue) (supplement_number issue) ''0''))
          else map_of payload ''supplement'' = None)"
proof -
  from issue_as_kernel_Inr[OF assms] obtain season i where
    p: "payload =
        [(''volume'', JStr (str_or (volume issue) [])),
         (''number'', JStr (str_or (number issue) []))]
        @ (case supplement_of issue of None \<Rightarrow> [] | Some s \<Rightarrow> [(''supplement'', JStr s)])
        @ [(''titles'', lang_values (titles issue)), (''publication_season'', season),
           (''_id'', JStr i)]"
    by blast
  show ?thesis
    by (simp add: p supplement_of_def is_str_def str_or_first)
qed

theorem supplement_gating_witness:
  "issue_as_kernel
     \<lparr>volume = Some ''01'', number = Some ''2'', supplement_volume = None,
      supplement_number = None, issue_type = ''supplement'', titles = None,
      start_month = None, end_month = None, publication_date = Some ''2019-03'',
      v35 = Some [Some ''0001-0002'']\<rparr>
     = Inr [(''volume'', JStr ''01''), (''number'', JStr ''2''), (''supplement'', JStr ''0''),
            (''titles'', JList []), (''publication_season'', JList []),
            (''_id'', JStr ''0001-0002-2019-v1-n2-s0'')]
   \<and> map_of [(''volume'', JStr ''01''), (''number'', JStr ''2''), (''supplement'', JStr ''0''),
            (''titles'', JList []), (''publication_season'', JList []),
            (''_id'', JStr ''0001-0002-2019-v1-n2-s0'')] ''supplement'' = Some (JStr ''0'')"
proof -
  let ?issue = "\<lparr>volume = Some ''01'', number = Some ''2'', supplement_volume = None,
      supplement_number = None, issue_type = ''supplement'', titles = None,
      start_month = None, end_month = None, publication_date = Some ''2019-03'',
      v35 = Some [Some ''0001-0002'']\<rparr>"
  have e: "issue_as_kernel ?issue
     = Inr [(''volume'', JStr ''01''), (''number'', JStr ''2''), (''supplement'', JStr ''0''),
            (''titles'', JList []), (''publication_season'', JList []),
            (''_id'', JStr ''0001-0002-2019-v1-n2-s0'')]"
    by code_simp
  show ?thesis
    using supplement_gating[OF e] e by (simp add: first_truthy_def)
qed

text \<open>
  Each step of the second loop adds at most one component, under its own prefix: the
  value of its label, or the decimal numeral that the integer round trip renders.
\<close>

lemma digit_char_decimal: "n < 10 \<Longrightarrow> isdecimal_char (digit_char n)"
  by (simp add: isdecimal_char_def digit_char_def)

lemma str_nat_decimal: "isdecimal (str_nat n)"
proof (induction n rule: str_nat.induct)
  case (1 n)
  show ?case
  proof (cases "n < 10")
    case True
    then show ?thesis
      by (subst str_nat.simps) (simp add: isdecimal_def digit_char_decimal)
  next
    case False
    have "n mod 10 < 10" by simp
    then have "isdecimal_char (digit_char (n mod 10))" by (rule digit_char_decimal)
    then show ?thesis
      using 1[OF False] False by (subst str_nat.simps) (simp add: isdecimal_def)
  qed
qed

lemma py_int_nonneg:
  assumes "isdigit v" and "py_int v = Inr k"
  shows "0 \<le> k"
proof -
  obtain c r where v: "v = c # r" and c: "isdigit_char c"
    using assms(1) by (cases v) (auto simp: isdigit_def)
  have ns: "\<not> int_space c" and nm: "c \<noteq> CHR ''-''"
    using c by (auto simp: isdigit_char_def isdecimal_char_def int_space_def)
  have t: "dropWhile int_space v = v" using v ns by simp
  have neg: "(case v of [] \<Rightarrow> False | c # _ \<Rightarrow> c = CHR ''-'') = False"
    using v nm by simp
  show ?thesis
    using assms(2) unfolding py_int_def Let_def t neg
    by (auto split: if_splits)
qed

lemma roundtrip_decimal:
  assumes "isdigit v" and "map_sum id py_str (py_int v) = Inr v'"
  shows "isdecimal v'"
proof -
  from assms(2) obtain k where k: "py_int v = Inr k" and v': "v' = py_str k"
    by (cases "py_int v") auto
  have "0 \<le> k" using py_int_nonneg[OF assms(1) k] .
  then show ?thesis by (simp add: v' py_str_def str_nat_decimal)
qed

lemma id_tail_prefixed:
  "id_tail data ((label, p) # labels) = Inr r \<Longrightarrow>
   \<exists>xs rest. id_tail data labels = Inr rest \<and> r = map ((@) p) xs @ rest
             \<and> list_all (\<lambda>x. data_get data label = Some x \<or> isdecimal x) xs"
proof (cases "data_get data label")
  case None
  assume "id_tail data ((label, p) # labels) = Inr r"
  then have "id_tail data labels = Inr r \<and> r = map ((@) p) [] @ r" using None by simp
  then show ?thesis by (intro exI[of _ "[]"] exI[of _ r]) simp
next
  case (Some v)
  assume a: "id_tail data ((label, p) # labels) = Inr r"
  show ?thesis
  proof (cases "v = []")
    case True
    then have "id_tail data labels = Inr r \<and> r = map ((@) p) [] @ r" using a Some by simp
    then show ?thesis by (intro exI[of _ "[]"] exI[of _ r]) simp
  next
    case False
    from a Some False obtain v' rest where
      c: "(if isdigit v then map_sum id py_str (py_int v) else Inr v) = Inr v'"
      and t: "id_tail data labels = Inr rest" and r: "r = (p @ v') # rest"
      by (auto split: sum.splits)
    have "data_get data label = Some v' \<or> isdecimal v'"
    proof (cases "isdigit v")
      case True
      then show ?thesis using c roundtrip_decimal by simp
    next
      case False
      then show ?thesis using c Some by simp
    qed
    then show ?thesis using t r by (intro exI[of _ "[v']"] exI[of _ rest]) simp
  qed
qed

lemma issue_id_no_supplement:
  assumes "issue_id (Some issn) (Some year) vol num None = Inr i"
  shows "\<exists>vs ns. i = join ''-'' (filter (\<lambda>s. s \<noteq> []) [issn, year]
                              @ map ((@) ''v'') vs @ map ((@) ''n'') ns)
               \<and> list_all (\<lambda>x. vol = Some x \<or> isdecimal x) vs
               \<and> list_all (\<lambda>x. num = Some x \<or> isdecimal x) ns"
proof -
  let ?data = "[(''issn_id'', Some issn), (''year'', Some year), (''volume'', vol),
                (''number'', num), (''supplement'', None)]"
  have z: "zip [''issn_id'', ''year'', ''volume'', ''number'', ''supplement'']
             [Some issn, Some year, vol, num, None] = ?data"
    by simp
  have h: "id_head ?data [''issn_id'', ''year''] = filter (\<lambda>s. s \<noteq> []) [issn, year]"
    by (simp add: data_get_def)
  have s: "id_tail ?data [(''supplement'', ''s'')] = Inr []"
    by (simp add: data_get_def)
  have g: "data_get ?data ''volume'' = vol" "data_get ?data ''number'' = num"
    by (simp_all add: data_get_def)
  from assms obtain r where
    r: "id_tail ?data [(''volume'', ''v''), (''number'', ''n''), (''supplement'', ''s'')] = Inr r"
    and i: "i = join ''-'' (id_head ?data [''issn_id'', ''year''] @ r)"
    unfolding issue_id_def Let_def z by (auto split: sum.splits)
  from id_tail_prefixed[OF r] obtain vs r1 where
    r1: "id_tail ?data [(''number'', ''n''), (''supplement'', ''s'')] = Inr r1"
    and rv: "r = map ((@) ''v'') vs @ r1"
    and cv: "list_all (\<lambda>x. vol = Some x \<or> isdecimal x) vs"
    unfolding g by blast
  from id_tail_prefixed[OF r1] obtain ns r2 where
    r2: "id_tail ?data [(''supplement'', ''s'')] = Inr r2"
    and rn: "r1 = map ((@) ''n'') ns @ r2"
    and cn: "list_all (\<lambda>x. num = Some x \<or> isdecimal x) ns"
    unfolding g by blast
  have "r2 = []" using r2 s by simp
  then have "i = join ''-'' (filter (\<lambda>s. s \<noteq> []) [issn, year]
                              @ map ((@) ''v'') vs @ map ((@) ''n'') ns)"
    using i h rv rn by simp
  then show ?thesis using cv cn by blast
qed

text \<open>
  C9.  For a record whose type tag is not \<open>supplement\<close>, the identity in a returned
  payload is computed with no supplement: it is the join of the ISSN, the year and
  components under the prefixes \<open>v\<close> and \<open>n\<close> only, each of them the volume or the
  number of the record or a decimal numeral, and the payload is the same whatever the
  supplement-volume and supplement-number indicators of the record are.
\<close>

theorem no_supplement_component:
  assumes "issue_type issue \<noteq> ''supplement''" and "issue_as_kernel issue = Inr payload"
  shows "\<exists>issn y m d i vs ns.
           issn_of issue = Inr issn \<and> parse_date (publication_date issue) = Inr (y, m, d)
         \<and> map_of payload ''_id'' = Some (JStr i)
         \<and> issue_id (Some issn) (Some (py_str (int y))) (volume issue) (number issue) None = Inr i
         \<and> i = join ''-'' (filter (\<lambda>s. s \<noteq> []) [issn, py_str (int y)]
                            @ map ((@) ''v'') vs @ map ((@) ''n'') ns)
         \<and> list_all (\<lambda>x. volume issue = Some x \<or> isdecimal x) vs
         \<and> list_all (\<lambda>x. number issue = Some x \<or> isdecimal x) ns
         \<and> issue_as_kernel (issue\<lparr>supplement_volume := sv, supplement_number := sn\<rparr>)
             = Inr payload"
proof -
  have n: "supplement_of issue = None"
    using assms(1) by (simp add: supplement_of_def is_str_def)
  from issue_as_kernel_Inr[OF assms(2)] obtain season issn y m d i where
    a: "issn_of issue = Inr issn" "parse_date (publication_date issue) = Inr (y, m, d)"
       "issue_id (Some issn) (Some (py_str (int y))) (volume issue) (number issue) None = Inr i"
    and p: "payload =
        [(''volume'', JStr (str_or (volume issue) [])),
         (''number'', JStr (str_or (number issue) [])),
         (''titles'', lang_values (titles issue)), (''publication_season'', season),
         (''_id'', JStr i)]"
    by (auto simp: n)
  from issue_id_no_supplement[OF a(3)] obtain vs ns where
    j: "i = join ''-'' (filter (\<lambda>s. s \<noteq> []) [issn, py_str (int y)]
                          @ map ((@) ''v'') vs @ map ((@) ''n'') ns)"
       "list_all (\<lambda>x. volume issue = Some x \<or> isdecimal x) vs"
       "list_all (\<lambda>x. number issue = Some x \<or> isdecimal x) ns"
    by blast
  have e: "issue_as_kernel (issue\<lparr>supplement_volume := sv, supplement_number := sn\<rparr>)
      = issue_as_kernel issue"
  proof -
    let ?issue' = "issue\<lparr>supplement_volume := sv, supplement_number := sn\<rparr>"
    have "supplement_of ?issue' = supplement_of issue"
      using assms(1) by (simp add: supplement_of_def is_str_def)
    moreover have "publication_season ?issue' = publication_season issue"
      by (simp add: publication_season_def cong: sum.case_cong if_cong)
    moreover have "issn_of ?issue' = issn_of issue"
      by (simp add: issn_of_def)
    ultimately show ?thesis
      by (simp add: issue_as_kernel_def cong: sum.case_cong prod.case_cong)
  qed
  have k: "map_of payload ''_id'' = Some (JStr i)" by (simp add: p)
  show ?thesis using a j e k assms(2) by auto
qed

theorem no_supplement_component_witness:
  "''regular'' \<noteq> ''supplement''
   \<and> issue_as_kernel
       \<lparr>volume = Some ''01'', number = Some ''2'', supplement_volume = Some ''3'',
        supplement_number = Some ''4'', issue_type = ''regular'', titles = None,
        start_month = None, end_month = None, publication_date = Some ''2019-03'',
        v35 = Some [Some ''0001-0002'']\<rparr>
      = Inr [(''volume'', JStr ''01''), (''number'', JStr ''2''),
             (''titles'', JList []), (''publication_season'', JList []),
             (''_id'', JStr ''0001-0002-2019-v1-n2'')]
   \<and> issue_as_kernel
       \<lparr>volume = Some ''01'', number = Some ''2'', supplement_volume = None,
        supplement_number = None, issue_type = ''regular'', titles = None,
        start_month = None, end_month = None, publication_date = Some ''2019-03'',
        v35 = Some [Some ''0001-0002'']\<rparr>
      = Inr [(''volume'', JStr ''01''), (''number'', JStr ''2''),
             (''titles'', JList []), (''publication_season'', JList []),
             (''_id'', JStr ''0001-0002-2019-v1-n2'')]"
proof -
  let ?issue = "\<lparr>volume = Some ''01'', number = Some ''2'', supplement_volume = Some ''3'',
        supplement_number = Some ''4'', issue_type = ''regular'', titles = None,
        start_month = None, end_month = None, publication_date = Some ''2019-03'',
        v35 = Some [Some ''0001-0002'']\<rparr>"
  have t: "issue_type ?issue \<noteq> ''supplement''" by simp
  have e: "issue_as_kernel ?issue
      = Inr [(''volume'', JStr ''01''), (''number'', JStr ''2''),
             (''titles'', JList []), (''publication_season'', JList []),
             (''_id'', JStr ''0001-0002-2019-v1-n2'')]"
    by code_simp
  show ?thesis
    using no_supplement_component[OF t e, of None None] e by auto
qed

section \<open>Facts about the keys of the payloads\<close>

lemma journal_keys: "map fst (journal_as_kernel upper journal) = schema_keys"
  by (simp add: journal_as_kernel_def schema_keys_def)

lemma journal_kinds:
  "list_all (\<lambda>kv. fst kv = ''_id'' \<or> str_list_or_dict (snd kv)) (journal_as_kernel upper journal)"
  by (simp add: journal_as_kernel_def lang_values_def status_as_kernel_def
        split: option.splits prod.splits)

lemma journal_id:
  "map_of (journal_as_kernel upper journal) ''_id''
     = Some (case (if truthy_str (any_issn journal) then any_issn journal
                   else scielo_issn journal) of
               None \<Rightarrow> JNone
             | Some i \<Rightarrow> JStr i)"
  by (simp add: journal_as_kernel_def)

lemma journal_absent:
  "(mission journal = None \<longrightarrow> map_of (journal_as_kernel upper journal) ''mission'' = Some (JList []))
 \<and> (title journal = None \<longrightarrow> map_of (journal_as_kernel upper journal) ''title'' = Some (JStr []))
 \<and> (abbreviated_iso_title journal = None
      \<longrightarrow> map_of (journal_as_kernel upper journal) ''title_iso'' = Some (JStr []))
 \<and> (abbreviated_title journal = None
      \<longrightarrow> map_of (journal_as_kernel upper journal) ''short_title'' = Some (JStr []))
 \<and> (acronym journal = None \<longrightarrow> map_of (journal_as_kernel upper journal) ''acronym'' = Some (JStr []))
 \<and> (scielo_issn journal = None
      \<longrightarrow> map_of (journal_as_kernel upper journal) ''scielo_issn'' = Some (JStr []))
 \<and> (print_issn journal = None
      \<longrightarrow> map_of (journal_as_kernel upper journal) ''print_issn'' = Some (JStr []))
 \<and> (electronic_issn journal = None
      \<longrightarrow> map_of (journal_as_kernel upper journal) ''electronic_issn'' = Some (JStr []))
 \<and> (status_history journal = None
      \<longrightarrow> map_of (journal_as_kernel upper journal) ''status'' = Some (JDict []))
 \<and> (subject_areas journal = None
      \<longrightarrow> map_of (journal_as_kernel upper journal) ''subject_areas'' = Some (JList []))
 \<and> (sponsors journal = None
      \<longrightarrow> map_of (journal_as_kernel upper journal) ''sponsors'' = Some (JList []))
 \<and> (wos_subject_areas journal = None
      \<longrightarrow> map_of (journal_as_kernel upper journal) ''subject_categories'' = Some (JList []))
 \<and> (submission_url journal = None
      \<longrightarrow> map_of (journal_as_kernel upper journal) ''online_submission_url'' = Some (JStr []))
 \<and> (next_title journal = None
      \<longrightarrow> map_of (journal_as_kernel upper journal) ''next_journal'' = Some (JDict []))
 \<and> (previous_title journal = None
      \<longrightarrow> map_of (journal_as_kernel upper journal) ''previous_journal'' = Some (JDict []))
 \<and> (editor_email journal = None \<and> editor_address journal = None
      \<longrightarrow> map_of (journal_as_kernel upper journal) ''contact'' = Some (JDict []))"
  by (simp add: journal_as_kernel_def lang_values_def status_as_kernel_def str_or_def named_def)

lemma publication_season_list:
  "publication_season issue = Inr season \<Longrightarrow>
   str_list_or_dict season
   \<and> (start_month issue = None \<or> end_month issue = None \<longrightarrow> season = JList [])"
  by (auto simp: publication_season_def split: if_splits sum.splits)

lemma issue_keys:
  assumes "issue_as_kernel issue = Inr payload"
  shows "map fst payload
           = [''volume'', ''number'']
             @ (if issue_type issue = ''supplement'' then [''supplement''] else [])
             @ [''titles'', ''publication_season'', ''_id'']
       \<and> list_all (\<lambda>kv. str_list_or_dict (snd kv)) payload
       \<and> (volume issue = None \<longrightarrow> map_of payload ''volume'' = Some (JStr []))
       \<and> (number issue = None \<longrightarrow> map_of payload ''number'' = Some (JStr []))
       \<and> (titles issue = None \<longrightarrow> map_of payload ''titles'' = Some (JList []))
       \<and> (start_month issue = None \<or> end_month issue = None
            \<longrightarrow> map_of payload ''publication_season'' = Some (JList []))"
proof -
  from issue_as_kernel_Inr[OF assms] obtain season i where
    s: "publication_season issue = Inr season"
    and p: "payload =
        [(''volume'', JStr (str_or (volume issue) [])),
         (''number'', JStr (str_or (number issue) []))]
        @ (case supplement_of issue of None \<Rightarrow> [] | Some s \<Rightarrow> [(''supplement'', JStr s)])
        @ [(''titles'', lang_values (titles issue)), (''publication_season'', season),
           (''_id'', JStr i)]"
    by blast
  show ?thesis
    using publication_season_list[OF s]
    by (simp add: p supplement_of_def is_str_def lang_values_def str_or_def split: option.splits)
qed

lemma journal_all:
  "map fst (journal_as_kernel upper journal) = schema_keys
 \<and> list_all (\<lambda>kv. fst kv = ''_id'' \<or> str_list_or_dict (snd kv)) (journal_as_kernel upper journal)
 \<and> map_of (journal_as_kernel upper journal) ''_id''
     = Some (case (if truthy_str (any_issn journal) then any_issn journal
                   else scielo_issn journal) of
               None \<Rightarrow> JNone
             | Some i \<Rightarrow> JStr i)
 \<and> (mission journal = None \<longrightarrow> map_of (journal_as_kernel upper journal) ''mission'' = Some (JList []))
 \<and> (title journal = None \<longrightarrow> map_of (journal_as_kernel upper journal) ''title'' = Some (JStr []))
 \<and> (abbreviated_iso_title journal = None
      \<longrightarrow> map_of (journal_as_kernel upper journal) ''title_iso'' = Some (JStr []))
 \<and> (abbreviated_title journal = None
      \<longrightarrow> map_of (journal_as_kernel upper journal) ''short_title'' = Some (JStr []))
 \<and> (acronym journal = None \<longrightarrow> map_of (journal_as_kernel upper journal) ''acronym'' = Some (JStr []))
 \<and> (scielo_issn journal = None
      \<longrightarrow> map_of (journal_as_kernel upper journal) ''scielo_issn'' = Some (JStr []))
 \<and> (print_issn journal = None
      \<longrightarrow> map_of (journal_as_kernel upper journal) ''print_issn'' = Some (JStr []))
 \<and> (electronic_issn journal = None
      \<longrightarrow> map_of (journal_as_kernel upper journal) ''electronic_issn'' = Some (JStr []))
 \<and> (status_history journal = None
      \<longrightarrow> map_of (journal_as_kernel upper journal) ''status'' = Some (JDict []))
 \<and> (subject_areas journal = None
      \<longrightarrow> map_of (journal_as_kernel upper journal) ''subject_areas'' = Some (JList []))
 \<and> (sponsors journal = None
      \<longrightarrow> map_of (journal_as_kernel upper journal) ''sponsors'' = Some (JList []))
 \<and> (wos_subject_areas journal = None
      \<longrightarrow> map_of (journal_as_kernel upper journal) ''subject_categories'' = Some (JList []))
 \<and> (submission_url journal = None
      \<longrightarrow> map_of (journal_as_kernel upper journal) ''online_submission_url'' = Some (JStr []))
 \<and> (next_title journal = None
      \<longrightarrow> map_of (journal_as_kernel upper journal) ''next_journal'' = Some (JDict []))
 \<and> (previous_title journal = None
      \<longrightarrow> map_of (journal_as_kernel upper journal) ''previous_journal'' = Some (JDict []))
 \<and> (editor_email journal = None \<and> editor_address journal = None
      \<longrightarrow> map_of (journal_as_kernel upper journal) ''contact'' = Some (JDict []))
"
  using journal_keys[where upper = upper and journal = journal]
    journal_kinds[where upper = upper and journal = journal]
    journal_id[where upper = upper and journal = journal]
    journal_absent[where upper = upper and journal = journal]
  by (simp only: simp_thms)

lemma issue_all:
  "(issue_as_kernel issue = Inr payload \<longrightarrow>
       map fst payload
           = [''volume'', ''number'']
             @ (if issue_type issue = ''supplement'' then [''supplement''] else [])
             @ [''titles'', ''publication_season'', ''_id'']
       \<and> list_all (\<lambda>kv. str_list_or_dict (snd kv)) payload
       \<and> (volume issue = None \<longrightarrow> map_of payload ''volume'' = Some (JStr []))
       \<and> (number issue = None \<longrightarrow> map_of payload ''number'' = Some (JStr []))
       \<and> (titles issue = None \<longrightarrow> map_of payload ''titles'' = Some (JList []))
       \<and> (start_month issue = None \<or> end_month issue = None
            \<longrightarrow> map_of payload ''publication_season'' = Some (JList [])))"
  using issue_keys[where issue = issue and payload = payload] by (rule impI)

text \<open>
  C8, as the code has it.  The journal payload holds every key of the fixed schema.
  Every value other than that of \<open>_id\<close> is a string, a list or a mapping, and is the empty
  one when the field is absent from the record.  The value of \<open>_id\<close> is the ISSN, and
  \<open>None\<close> when the record has neither ISSN.  A payload that the issue normalizer returns
  holds \<open>volume\<close>, \<open>number\<close>, \<open>titles\<close>, \<open>publication_season\<close> and \<open>_id\<close>, and
  \<open>supplement\<close> only for a supplement; all its values are strings, lists or mappings, empty
  for absent fields.
\<close>

theorem payload_keys_present:
  "(map fst (journal_as_kernel upper journal) = schema_keys
 \<and> list_all (\<lambda>kv. fst kv = ''_id'' \<or> str_list_or_dict (snd kv)) (journal_as_kernel upper journal)
 \<and> map_of (journal_as_kernel upper journal) ''_id''
     = Some (case (if truthy_str (any_issn journal) then any_issn journal
                   else scielo_issn journal) of
               None \<Rightarrow> JNone
             | Some i \<Rightarrow> JStr i)
 \<and> (mission journal = None \<longrightarrow> map_of (journal_as_kernel upper journal) ''mission'' = Some (JList []))
 \<and> (title journal = None \<longrightarrow> map_of (journal_as_kernel upper journal) ''title'' = Some (JStr []))
 \<and> (abbreviated_iso_title journal = None
      \<longrightarrow> map_of (journal_as_kernel upper journal) ''title_iso'' = Some (JStr []))
 \<and> (abbreviated_title journal = None
      \<longrightarrow> map_of (journal_as_kernel upper journal) ''short_title'' = Some (JStr []))
 \<and> (acronym journal = None \<longrightarrow> map_of (journal_as_kernel upper journal) ''acronym'' = Some (JStr []))
 \<and> (scielo_issn journal = None
      \<longrightarrow> map_of (journal_as_kernel upper journal) ''scielo_issn'' = Some (JStr []))
 \<and> (print_issn journal = None
      \<longrightarrow> map_of (journal_as_kernel upper journal) ''print_issn'' = Some (JStr []))
 \<and> (electronic_issn journal = None
      \<longrightarrow> map_of (journal_as_kernel upper journal) ''electronic_issn'' = Some (JStr []))
 \<and> (status_history journal = None
      \<longrightarrow> map_of (journal_as_kernel upper journal) ''status'' = Some (JDict []))
 \<and> (subject_areas journal = None
      \<longrightarrow> map_of (journal_as_kernel upper journal) ''subject_areas'' = Some (JList []))
 \<and> (sponsors journal = None
      \<longrightarrow> map_of (journal_as_kernel upper journal) ''sponsors'' = Some (JList []))
 \<and> (wos_subject_areas journal = None
      \<longrightarrow> map_of (journal_as_kernel upper journal) ''subject_categories'' = Some (JList []))
 \<and> (submission_url journal = None
      \<longrightarrow> map_of (journal_as_kernel upper journal) ''online_submission_url'' = Some (JStr []))
 \<and> (next_title journal = None
      \<longrightarrow> map_of (journal_as_kernel upper journal) ''next_journal'' = Some (JDict []))
 \<and> (previous_title journal = None
      \<longrightarrow> map_of (journal_as_kernel upper journal) ''previous_journal'' = Some (JDict []))
 \<and> (editor_email journal = None \<and> editor_address journal = None
      \<longrightarrow> map_of (journal_as_kernel upper journal) ''contact'' = Some (JDict []))
)
 \<and> (issue_as_kernel issue = Inr payload \<longrightarrow>
       map fst payload
           = [''volume'', ''number'']
             @ (if issue_type issue = ''supplement'' then [''supplement''] else [])
             @ [''titles'', ''publication_season'', ''_id'']
       \<and> list_all (\<lambda>kv. str_list_or_dict (snd kv)) payload
       \<and> (volume issue = None \<longrightarrow> map_of payload ''volume'' = Some (JStr []))
       \<and> (number issue = None \<longrightarrow> map_of payload ''number'' = Some (JStr []))
       \<and> (titles issue = None \<longrightarrow> map_of payload ''titles'' = Some (JList []))
       \<and> (start_month issue = None \<or> end_month issue = None
            \<longrightarrow> map_of payload ''publication_season'' = Some (JList [])))"
  by (rule conjI[OF journal_all issue_all])

theorem payload_keys_present_witness:
  "map fst (journal_as_kernel ascii_upper
      \<lparr>any_issn = Some ''0001-0002'', scielo_issn = Some ''0001-0002'', mission = None,
       title = Some ''Example Journal'', abbreviated_iso_title = None,
       abbreviated_title = None, acronym = None, print_issn = None, electronic_issn = None,
       status_history = None, subject_areas = None, sponsors = None,
       wos_subject_areas = None, submission_url = None, next_title = None,
       previous_title = None, editor_email = None, editor_address = None\<rparr>) = schema_keys
 \<and> map_of (journal_as_kernel ascii_upper
      \<lparr>any_issn = Some ''0001-0002'', scielo_issn = Some ''0001-0002'', mission = None,
       title = Some ''Example Journal'', abbreviated_iso_title = None,
       abbreviated_title = None, acronym = None, print_issn = None, electronic_issn = None,
       status_history = None, subject_areas = None, sponsors = None,
       wos_subject_areas = None, submission_url = None, next_title = None,
       previous_title = None, editor_email = None, editor_address = None\<rparr>) ''mission''
     = Some (JList [])
 \<and> map_of (journal_as_kernel ascii_upper
      \<lparr>any_issn = Some ''0001-0002'', scielo_issn = Some ''0001-0002'', mission = None,
       title = Some ''Example Journal'', abbreviated_iso_title = None,
       abbreviated_title = None, acronym = None, print_issn = None, electronic_issn = None,
       status_history = None, subject_areas = None, sponsors = None,
       wos_subject_areas = None, submission_url = None, next_title = None,
       previous_title = None, editor_email = None, editor_address = None\<rparr>) ''contact''
     = Some (JDict [])
 \<and> issue_as_kernel
      \<lparr>volume = None, number = Some ''2'', supplement_volume = None,
       supplement_number = None, issue_type = ''regular'', titles = None,
       start_month = None, end_month = None, publication_date = Some ''2019'',
       v35 = Some [Some ''0001-0002'']\<rparr>
     = Inr [(''volume'', JStr []), (''number'', JStr ''2''), (''titles'', JList []),
            (''publication_season'', JList []), (''_id'', JStr ''0001-0002-2019-n2'')]
 \<and> map fst [(''volume'', JStr []), (''number'', JStr ''2''), (''titles'', JList []),
            (''publication_season'', JList []), (''_id'', JStr ''0001-0002-2019-n2'')]
     = [''volume'', ''number'', ''titles'', ''publication_season'', ''_id'']"
proof -
  let ?journal = "\<lparr>any_issn = Some ''0001-0002'', scielo_issn = Some ''0001-0002'', mission = None,
       title = Some ''Example Journal'', abbreviated_iso_title = None,
       abbreviated_title = None, acronym = None, print_issn = None, electronic_issn = None,
       status_history = None, subject_areas = None, sponsors = None,
       wos_subject_areas = None, submission_url = None, next_title = None,
       previous_title = None, editor_email = None, editor_address = None\<rparr>"
  let ?issue = "\<lparr>volume = None, number = Some ''2'', supplement_volume = None,
       supplement_number = None, issue_type = ''regular'', titles = None,
       start_month = None, end_month = None, publication_date = Some ''2019'',
       v35 = Some [Some ''0001-0002'']\<rparr>"
  let ?payload = "[(''volume'', JStr []), (''number'', JStr ''2''), (''titles'', JList []),
            (''publication_season'', JList []), (''_id'', JStr ''0001-0002-2019-n2'')]"
  have e: "issue_as_kernel ?issue = Inr ?payload"
    by code_simp
  have m: "mission ?journal = None" "editor_email ?journal = None \<and> editor_address ?journal = None"
    by simp_all
  from payload_keys_present[where upper = ascii_upper and journal = ?journal
      and issue = ?issue and payload = ?payload] e m
  show ?thesis by simp
qed

text \<open>
  The claim as stated fails for \<open>_id\<close>: on a record without any ISSN its value is
  \<open>None\<close>, which is neither a string, a list nor a mapping.
\<close>

theorem journal_id_none:
  "map_of (journal_as_kernel ascii_upper
      \<lparr>any_issn = None, scielo_issn = None, mission = None,
       title = Some ''Example Journal'', abbreviated_iso_title = None,
       abbreviated_title = None, acronym = None, print_issn = None, electronic_issn = None,
       status_history = None, subject_areas = None, sponsors = None,
       wos_subject_areas = None, submission_url = None, next_title = None,
       previous_title = None, editor_email = None, editor_address = None\<rparr>) ''_id''
     = Some JNone
   \<and> \<not> str_list_or_dict JNone"
  by (simp add: journal_as_kernel_def)

section \<open>The payloads that the drivers pass to the client\<close>

lemma lang_values_kind: "str_list_or_dict (lang_values m)"
  by (simp add: lang_values_def split: option.splits)

lemma status_kind: "str_list_or_dict (status_as_kernel h)"
  by (simp add: status_as_kernel_def split: option.splits prod.splits)

lemma kind_not_none: "str_list_or_dict v \<Longrightarrow> v \<noteq> JNone"
  by auto

lemma pop_id_journal:
  "\<exists>i. pop_id (journal_as_kernel upper journal)
         = Inr (i, filter (\<lambda>(k, v). k \<noteq> ''_id'') (journal_as_kernel upper journal))"
  by (simp add: pop_id_def journal_id split: option.splits)


lemma pop_id_issue:
  assumes "issue_as_kernel issue = Inr payload"
  shows "\<exists>i. pop_id payload = Inr (i, filter (\<lambda>(k, v). k \<noteq> ''_id'') payload)"
proof -
  from issue_as_kernel_Inr[OF assms] obtain season i where
    p: "payload =
        [(''volume'', JStr (str_or (volume issue) [])),
         (''number'', JStr (str_or (number issue) []))]
        @ (case supplement_of issue of None \<Rightarrow> [] | Some s \<Rightarrow> [(''supplement'', JStr s)])
        @ [(''titles'', lang_values (titles issue)), (''publication_season'', season),
           (''_id'', JStr i)]"
    by blast
  have "map_of payload ''_id'' = Some (JStr i)"
    by (simp add: p split: option.splits)
  then show ?thesis by (simp add: pop_id_def)
qed


section \<open>Facts about the reconciliation client\<close>

lemma logged_apply:
  "logged run req (l, w) = (fst (run req w), (l @ [req], snd (run req w)))"
  by (simp add: logged_def split: prod.splits)


lemma deep_equal_truthy: "deep_equal a b \<Longrightarrow> truthy a = truthy b"
proof (cases a; cases b)
  fix xs ys assume "a = JList xs" "b = JList ys" "deep_equal a b"
  then show ?thesis by (cases xs; cases ys) (auto simp: list_all_iff list_ex_iff)
next
  fix xs ys assume "a = JDict xs" "b = JDict ys" "deep_equal a b"
  then show ?thesis by (cases xs; cases ys) (auto simp: list_all_iff list_ex_iff)
qed auto



lemma register_or_update_404:
  assumes "run (GET_request (entity_url @ id')) w = (Inr resp, w1)" and "status_code resp = 404"
  shows "register_or_update (logged run) id' payload entity_url (l, w)
           = (fst (run (PUT_request (entity_url @ id') (create_payload payload)) w1),
              (l @ [GET_request (entity_url @ id'),
                    PUT_request (entity_url @ id') (create_payload payload)],
               snd (run (PUT_request (entity_url @ id') (create_payload payload)) w1)))"
  using assms
  by (simp add: register_or_update_def logged_apply GET_request_def[symmetric]
        PUT_request_def[symmetric])

lemma register_or_update_other:
  assumes "run (GET_request (entity_url @ id')) w = (Inr resp, w1)"
    and "status_code resp \<noteq> 200" and "status_code resp \<noteq> 404"
  shows "register_or_update (logged run) id' payload entity_url (l, w)
           = (Inr resp, (l @ [GET_request (entity_url @ id')], w1))"
  using assms
  by (simp add: register_or_update_def logged_apply GET_request_def[symmetric])

lemma register_or_update_200:
  assumes "run (GET_request (entity_url @ id')) w = (Inr resp, w1)"
    and "status_code resp = 200" and "json_metadata resp = Some metadata"
  shows "register_or_update (logged run) id' payload entity_url (l, w)
           = (if DeepDiff (JDict metadata) (JDict (patch_payload metadata payload))
              then (fst (run (PATCH_request (entity_url @ id') (patch_payload metadata payload)) w1),
                    (l @ [GET_request (entity_url @ id'),
                          PATCH_request (entity_url @ id') (patch_payload metadata payload)],
                     snd (run (PATCH_request (entity_url @ id') (patch_payload metadata payload)) w1)))
              else (Inr resp, (l @ [GET_request (entity_url @ id')], w1)))"
  using assms
  by (simp add: register_or_update_def logged_apply GET_request_def[symmetric]
        PATCH_request_def[symmetric])

lemma register_or_update_raise:
  assumes "run (GET_request (entity_url @ id')) w = (Inl e, w1)"
  shows "register_or_update (logged run) id' payload entity_url (l, w)
           = (Inl e, (l @ [GET_request (entity_url @ id')], w1))"
  using assms
  by (simp add: register_or_update_def logged_apply GET_request_def[symmetric])


text \<open>
  C7.  When the probe answers 404, the client issues one \<open>PUT\<close> after the probe and
  nothing else; its body holds exactly the entries of the payload whose value is truthy,
  so that no entry of the body is an empty string, list or mapping.
\<close>

theorem create_strips_falsy:
  assumes "run (GET_request (entity_url @ id')) w = (Inr resp, w1)" and "status_code resp = 404"
  shows "register_or_update (logged run) id' payload entity_url ([], w)
           = (fst (run (PUT_request (entity_url @ id') (create_payload payload)) w1),
              ([GET_request (entity_url @ id'),
                PUT_request (entity_url @ id') (create_payload payload)],
               snd (run (PUT_request (entity_url @ id') (create_payload payload)) w1)))
       \<and> set (create_payload payload) = {kv \<in> set payload. truthy (snd kv)}
       \<and> list_all (\<lambda>kv. truthy (snd kv) \<and> snd kv \<noteq> JStr [] \<and> snd kv \<noteq> JList []
                          \<and> snd kv \<noteq> JDict []) (create_payload payload)"
proof -
  have "set (create_payload payload) = {kv \<in> set payload. truthy (snd kv)}"
    by (auto simp: create_payload_def)
  moreover have "list_all (\<lambda>kv. truthy (snd kv) \<and> snd kv \<noteq> JStr [] \<and> snd kv \<noteq> JList []
                          \<and> snd kv \<noteq> JDict []) (create_payload payload)"
    by (auto simp: create_payload_def list_all_iff)
  ultimately show ?thesis
    using register_or_update_404[where run = run and entity_url = entity_url and id' = id'
        and w = w and resp = resp and ?w1.0 = w1 and payload = payload and l = "[]"] assms
    by simp
qed

theorem create_strips_falsy_witness:
  "kernel_run (GET_request (''/journals/'' @ ''0001-0002'')) []
     = (Inr \<lparr>status_code = 404, json_metadata = None\<rparr>, [])
   \<and> register_or_update (logged kernel_run) ''0001-0002''
        [(''title'', JStr ''Example Journal''), (''mission'', JList []), (''sponsors'', JList []),
         (''acronym'', JStr []), (''contact'', JDict [])] ''/journals/'' ([], [])
     = (Inr \<lparr>status_code = 201, json_metadata = None\<rparr>,
        ([GET_request ''/journals/0001-0002'',
          PUT_request ''/journals/0001-0002'' [(''title'', JStr ''Example Journal'')]],
         [(''/journals/0001-0002'', [(''title'', JStr ''Example Journal'')])]))"
proof -
  have g: "kernel_run (GET_request (''/journals/'' @ ''0001-0002'')) []
     = (Inr \<lparr>status_code = 404, json_metadata = None\<rparr>, [])"
    by (simp add: kernel_run_def GET_request_def)
  have s: "status_code \<lparr>status_code = 404, json_metadata = None\<rparr> = 404" by simp
  have c: "create_payload [(''title'', JStr ''Example Journal''), (''mission'', JList []),
         (''sponsors'', JList []), (''acronym'', JStr []), (''contact'', JDict [])]
      = [(''title'', JStr ''Example Journal'')]"
    by (simp add: create_payload_def)
  show ?thesis
    using create_strips_falsy[where run = kernel_run and entity_url = "''/journals/''"
        and id' = "''0001-0002''" and w = "[]" and ?w1.0 = "[]"
        and resp = "\<lparr>status_code = 404, json_metadata = None\<rparr>"
        and payload = "[(''title'', JStr ''Example Journal''),
         (''mission'', JList []), (''sponsors'', JList []), (''acronym'', JStr []),
         (''contact'', JDict [])]", OF g s] g
    by (simp add: c kernel_run_def PUT_request_def)
qed

text \<open>
  C6, as the code has it.  When the probe answers a status other than 200 and 404, the
  client issues neither a \<open>PUT\<close> nor a \<open>PATCH\<close> and returns the response of the probe to
  its caller; nothing is raised.
\<close>

theorem other_status_returned:
  assumes "run (GET_request (entity_url @ id')) w = (Inr resp, w1)"
    and "status_code resp \<noteq> 200" and "status_code resp \<noteq> 404"
  shows "register_or_update (logged run) id' payload entity_url ([], w)
           = (Inr resp, ([GET_request (entity_url @ id')], w1))"
  using register_or_update_other[where run = run and entity_url = entity_url and id' = id'
      and w = w and resp = resp and ?w1.0 = w1 and payload = payload and l = "[]"] assms
  by simp

theorem other_status_returned_witness:
  "answering 500 (GET_request (''/journals/'' @ ''0001-0002'')) ()
     = (Inr \<lparr>status_code = 500, json_metadata = None\<rparr>, ())
   \<and> register_or_update (logged (answering 500)) ''0001-0002''
        [(''title'', JStr ''Example Journal'')] ''/journals/'' ([], ())
     = (Inr \<lparr>status_code = 500, json_metadata = None\<rparr>,
        ([GET_request ''/journals/0001-0002''], ()))"
proof -
  have g: "answering 500 (GET_request (''/journals/'' @ ''0001-0002'')) ()
     = (Inr \<lparr>status_code = 500, json_metadata = None\<rparr>, ())"
    by (simp add: answering_def)
  have s: "status_code \<lparr>status_code = 500, json_metadata = None\<rparr> \<noteq> 200"
    "status_code \<lparr>status_code = 500, json_metadata = None\<rparr> \<noteq> 404" by simp_all
  show ?thesis
    using other_status_returned[where run = "answering 500" and entity_url = "''/journals/''"
        and id' = "''0001-0002''" and w = "()" and ?w1.0 = "()"
        and resp = "\<lparr>status_code = 500, json_metadata = None\<rparr>"
        and payload = "[(''title'', JStr ''Example Journal'')]", OF g s] g
    by simp
qed

text \<open>
  The claim as stated fails: on a probe that answers 500 the call returns normally, with
  the response of the probe, and is not a failure.
\<close>

theorem other_status_not_raised:
  "register_or_update (answering 500) ''0001-0002'' [(''title'', JStr ''Example Journal'')]
     ''/journals/'' ()
     = (Inr \<lparr>status_code = 500, json_metadata = None\<rparr>, ())"
  by (simp add: register_or_update_def answering_def)

text \<open>
  C1, as the code has it.  When the probe answers 200 and the remote metadata has a
  non-empty value at a key at which the payload has an empty one, the filtered payload
  keeps the key with its empty value, the diff is not empty and a \<open>PATCH\<close> that carries
  the empty value is issued.
\<close>

theorem empty_value_is_patched:
  assumes "run (GET_request (entity_url @ id')) w = (Inr resp, w1)"
    and "status_code resp = 200" and "json_metadata resp = Some metadata"
    and "distinct (map fst metadata)"
    and "map_of metadata k = Some mv" and "truthy mv"
    and "(k, v) \<in> set payload" and "\<not> truthy v"
  shows "(k, v) \<in> set (patch_payload metadata payload)
       \<and> DeepDiff (JDict metadata) (JDict (patch_payload metadata payload))
       \<and> register_or_update (logged run) id' payload entity_url ([], w)
           = (fst (run (PATCH_request (entity_url @ id') (patch_payload metadata payload)) w1),
              ([GET_request (entity_url @ id'),
                PATCH_request (entity_url @ id') (patch_payload metadata payload)],
               snd (run (PATCH_request (entity_url @ id') (patch_payload metadata payload)) w1)))"
proof -
  have g: "dict_get metadata k = mv" using assms(5) by (simp add: dict_get_def)
  have m: "(k, v) \<in> set (patch_payload metadata payload)"
    using assms(6,7) by (simp add: patch_payload_def g)
  have d: "DeepDiff (JDict metadata) (JDict (patch_payload metadata payload))"
  proof (rule ccontr)
    assume "\<not> DeepDiff (JDict metadata) (JDict (patch_payload metadata payload))"
    then have "deep_equal (JDict metadata) (JDict (patch_payload metadata payload))"
      by (simp add: DeepDiff_def)
    then have "\<forall>kv' \<in> set (patch_payload metadata payload).
        \<exists>kv \<in> set metadata. fst kv = fst kv' \<and> deep_equal (snd kv) (snd kv')"
      by (simp add: list_all_iff list_ex_iff)
    from bspec[OF this m]
    have "\<exists>kv \<in> set metadata. fst kv = k \<and> deep_equal (snd kv) v" by simp
    then obtain mv' where i: "(k, mv') \<in> set metadata" and e: "deep_equal mv' v" by force
    have "mv' = mv" using i assms(4,5) by simp
    then show False using e assms(6,8) deep_equal_truthy by blast
  qed
  show ?thesis
    using m d register_or_update_200[where run = run and entity_url = entity_url and id' = id'
        and w = w and resp = resp and ?w1.0 = w1 and payload = payload and l = "[]"
        and metadata = metadata] assms(1-3)
    by simp
qed

lemma kernel_GET:
  "kernel_run (GET_request e) store
     = (case map_of store e of
          None \<Rightarrow> (Inr \<lparr>status_code = 404, json_metadata = None\<rparr>, store)
        | Some metadata \<Rightarrow> (Inr \<lparr>status_code = 200, json_metadata = Some metadata\<rparr>, store))"
  by (simp add: kernel_run_def GET_request_def)


theorem empty_value_is_patched_witness:
  "kernel_run (GET_request (''/journals/'' @ ''x''))
       [(''/journals/x'', [(''title'', JStr ''A''), (''acronym'', JStr ''X'')])]
     = (Inr \<lparr>status_code = 200,
             json_metadata = Some [(''title'', JStr ''A''), (''acronym'', JStr ''X'')]\<rparr>,
        [(''/journals/x'', [(''title'', JStr ''A''), (''acronym'', JStr ''X'')])])
   \<and> distinct (map fst [(''title'', JStr ''A''), (''acronym'', JStr ''X'')])
   \<and> map_of [(''title'', JStr ''A''), (''acronym'', JStr ''X'')] ''acronym'' = Some (JStr ''X'')
   \<and> truthy (JStr ''X'')
   \<and> (''acronym'', JStr []) \<in> set [(''title'', JStr ''A''), (''acronym'', JStr [])]
   \<and> \<not> truthy (JStr [])
   \<and> (''acronym'', JStr [])
       \<in> set (patch_payload [(''title'', JStr ''A''), (''acronym'', JStr ''X'')]
                [(''title'', JStr ''A''), (''acronym'', JStr [])])
   \<and> DeepDiff (JDict [(''title'', JStr ''A''), (''acronym'', JStr ''X'')])
        (JDict (patch_payload [(''title'', JStr ''A''), (''acronym'', JStr ''X'')]
                  [(''title'', JStr ''A''), (''acronym'', JStr [])]))"
proof -
  let ?md = "[(''title'', JStr ''A''), (''acronym'', JStr ''X'')]"
  let ?p = "[(''title'', JStr ''A''), (''acronym'', JStr [])]"
  let ?resp = "\<lparr>status_code = 200, json_metadata = Some ?md\<rparr>"
  have g: "kernel_run (GET_request (''/journals/'' @ ''x'')) [(''/journals/x'', ?md)]
     = (Inr ?resp, [(''/journals/x'', ?md)])"
    by (simp add: kernel_GET)
  have h: "status_code ?resp = 200" "json_metadata ?resp = Some ?md"
    "distinct (map fst ?md)" "map_of ?md ''acronym'' = Some (JStr ''X'')" "truthy (JStr ''X'')"
    "(''acronym'', JStr []) \<in> set ?p" "\<not> truthy (JStr [])"
    by simp_all
  show ?thesis
    using empty_value_is_patched[where run = kernel_run and entity_url = "''/journals/''"
        and id' = "''x''" and w = "[(''/journals/x'', ?md)]" and ?w1.0 = "[(''/journals/x'', ?md)]"
        and resp = ?resp and metadata = ?md and payload = ?p and k = "''acronym''"
        and mv = "JStr ''X''" and v = "JStr []", OF g h] g h
    by simp
qed

text \<open>
  The claim as stated fails at its own example: with the remote metadata
  \<open>{"title": "A", "acronym": "X"}\<close> and the payload \<open>{"title": "A", "acronym": ""}\<close>
  the diff is not empty and the client issues a \<open>PATCH\<close> whose body sets \<open>acronym\<close> to
  the empty string.
\<close>

theorem empty_value_erases_remote:
  "register_or_update (logged kernel_run) ''x''
       [(''title'', JStr ''A''), (''acronym'', JStr [])] ''/journals/''
       ([], [(''/journals/x'', [(''title'', JStr ''A''), (''acronym'', JStr ''X'')])])
     = (Inr \<lparr>status_code = 204, json_metadata = None\<rparr>,
        ([GET_request ''/journals/x'',
          PATCH_request ''/journals/x'' [(''title'', JStr ''A''), (''acronym'', JStr [])]],
         [(''/journals/x'', [(''title'', JStr ''A''), (''acronym'', JStr [])]),
          (''/journals/x'', [(''title'', JStr ''A''), (''acronym'', JStr ''X'')])]))
   \<and> DeepDiff (JDict [(''title'', JStr ''A''), (''acronym'', JStr ''X'')])
        (JDict (patch_payload [(''title'', JStr ''A''), (''acronym'', JStr ''X'')]
                  [(''title'', JStr ''A''), (''acronym'', JStr [])]))"
  by (simp add: register_or_update_def logged_def kernel_run_def patch_payload_def dict_get_def
        DeepDiff_def merge_def GET_request_def PATCH_request_def)



section \<open>Facts about the batch drivers\<close>

lemma probed_simps:
  "probed [] = []"
  "probed (l @ [GET_request e]) = probed l @ [e]"
  "probed (l @ [GET_request e, PUT_request e b]) = probed l @ [e]"
  "probed (l @ [GET_request e, PATCH_request e b]) = probed l @ [e]"
  by (simp_all add: probed_def GET_request_def PUT_request_def PATCH_request_def)

lemma answers_Inr:
  assumes "answers run"
  obtains resp where "fst (run req w) = Inr resp"
    and "status_code resp = 200 \<Longrightarrow> \<exists>m. json_metadata resp = Some m"
  using assms unfolding answers_def by (metis not_None_eq)

lemma register_or_update_answers:
  assumes "answers run"
  shows "\<exists>r l' w'. register_or_update (logged run) i body url (l, w) = (Inr r, (l', w'))
                  \<and> probed l' = probed l @ [url @ i]"
proof -
  obtain resp where g: "fst (run (GET_request (url @ i)) w) = Inr resp"
    and m: "status_code resp = 200 \<Longrightarrow> \<exists>m. json_metadata resp = Some m"
    using answers_Inr[OF assms] by blast
  define w1 where "w1 = snd (run (GET_request (url @ i)) w)"
  have run: "run (GET_request (url @ i)) w = (Inr resp, w1)"
    using g by (simp add: w1_def prod_eq_iff)
  consider (nf) "status_code resp = 404" | (ok) "status_code resp = 200"
    | (other) "status_code resp \<noteq> 200" "status_code resp \<noteq> 404" by blast
  then show ?thesis
  proof cases
    case nf
    obtain r where "fst (run (PUT_request (url @ i) (create_payload body)) w1) = Inr r"
      using answers_Inr[OF assms] by blast
    then show ?thesis
      using register_or_update_404[where run = run and entity_url = url and id' = i
          and w = w and resp = resp and ?w1.0 = w1 and payload = body and l = l, OF run nf]
      by (simp add: probed_simps)
  next
    case ok
    then obtain md where md: "json_metadata resp = Some md" using m by blast
    obtain r where "fst (run (PATCH_request (url @ i) (patch_payload md body)) w1) = Inr r"
      using answers_Inr[OF assms] by blast
    then show ?thesis
      using register_or_update_200[where run = run and entity_url = url and id' = i
          and w = w and resp = resp and ?w1.0 = w1 and payload = body and l = l
          and metadata = md, OF run ok md]
      by (simp add: probed_simps)
  next
    case other
    then show ?thesis
      using register_or_update_other[where run = run and entity_url = url and id' = i
          and w = w and resp = resp and ?w1.0 = w1 and payload = body and l = l, OF run other]
      by (simp add: probed_simps)
  qed
qed

lemma reconcile_all_answers:
  assumes "answers run" and "\<forall>e \<in> set es. \<exists>i b. pop_id e = Inr (i, b)"
  shows "\<exists>l' w'. reconcile_all (logged run) url es (l, w) = (Inr (), (l', w'))
               \<and> probed l' = probed l @ map (\<lambda>e. url @ entity_id e) es"
  using assms(2)
proof (induction es arbitrary: l w)
  case Nil
  then show ?case by simp
next
  case (Cons e es)
  then obtain i b where p: "pop_id e = Inr (i, b)" by auto
  obtain r l1 w1 where
    s: "register_or_update (logged run) i b url (l, w) = (Inr r, (l1, w1))"
    and q: "probed l1 = probed l @ [url @ i]"
    using register_or_update_answers[OF assms(1)] by blast
  from Cons.IH[of l1 w1] Cons.prems obtain l' w' where
    t: "reconcile_all (logged run) url es (l1, w1) = (Inr (), (l', w'))"
    and u: "probed l' = probed l1 @ map (\<lambda>e. url @ entity_id e) es"
    by auto
  show ?case
    using p s t u q by (simp add: entity_id_def)
qed

lemma reconcile_all_append:
  "reconcile_all run url (xs @ ys) w
     = (case reconcile_all run url xs w of
          (Inl e, w') \<Rightarrow> (Inl e, w')
        | (Inr u, w') \<Rightarrow> reconcile_all run url ys w')"
  by (induction xs arbitrary: w) (auto split: sum.splits prod.splits)

lemma map_raise_Inr:
  "map_raise f xs = Inr ys \<Longrightarrow> \<forall>y \<in> set ys. \<exists>x \<in> set xs. f x = Inr y"
  by (induction xs arbitrary: ys) (auto split: sum.splits)

lemma answers_kernel_run: "answers kernel_run"
  unfolding answers_def
proof (intro allI)
  fix req :: request and w :: kernel
  show "\<exists>resp. fst (kernel_run req w) = Inr resp
          \<and> (status_code resp \<noteq> 200 \<or> json_metadata resp \<noteq> None)"
    by (cases "req_method req") (auto simp: kernel_run_def split: option.splits)
qed

text \<open>
  C3, as the code has it.  With a transport that never raises (a failure status is not
  an exception), a driver probes every entity of the stream, in order, provided that every
  record is normalized without an exception.  An exception of the issue normalizer on
  any record fails the batch before any request is sent.  An exception of the
  transport on the probe of an entity fails the batch there, and the entities after it
  are not processed.  A stream that cannot be obtained fails the batch.  The drivers
  return no outcome per entity.
\<close>

theorem batch_aborts_on_exception:
  assumes "answers run"
  shows "(\<exists>l' w'. process_journals upper (logged run) (Inr journals) ([], w) = (Inr (), (l', w'))
            \<and> probed l' = map (\<lambda>j. KERNEL_API_JOURNAL_ENDPOINT
                                      @ entity_id (journal_as_kernel upper j)) journals)
       \<and> (map_raise issue_as_kernel (filter_issues issues) = Inr entities \<longrightarrow>
           (\<exists>l' w'. process_issues (logged run) (Inr issues) ([], w) = (Inr (), (l', w'))
              \<and> probed l' = map (\<lambda>e. KERNEL_API_BUNDLES_ENDPOINT @ entity_id e) entities))
       \<and> (map_raise issue_as_kernel (filter_issues issues) = Inl e \<longrightarrow>
           process_issues (logged run) (Inr issues) ([], w) = (Inl e, ([], w)))
       \<and> (process_journals upper (logged any_run) (Inr before) ([], v) = (Inr (), (l1, v1))
           \<and> fst (any_run (GET_request (KERNEL_API_JOURNAL_ENDPOINT
                      @ entity_id (journal_as_kernel upper journal))) v1) = Inl e \<longrightarrow>
           process_journals upper (logged any_run) (Inr (before @ journal # after)) ([], v)
             = (Inl e,
                (l1 @ [GET_request (KERNEL_API_JOURNAL_ENDPOINT
                         @ entity_id (journal_as_kernel upper journal))],
                 snd (any_run (GET_request (KERNEL_API_JOURNAL_ENDPOINT
                         @ entity_id (journal_as_kernel upper journal))) v1))))
       \<and> process_journals upper any_run (Inl e) v = (Inl e, v)
       \<and> process_issues any_run (Inl e) v = (Inl e, v)"
proof -
  have A: "\<exists>l' w'. process_journals upper (logged run) (Inr journals) ([], w) = (Inr (), (l', w'))
            \<and> probed l' = map (\<lambda>j. KERNEL_API_JOURNAL_ENDPOINT
                                      @ entity_id (journal_as_kernel upper j)) journals"
  proof -
    have "\<forall>e \<in> set (map (journal_as_kernel upper) journals). \<exists>i b. pop_id e = Inr (i, b)"
    proof
      fix e assume "e \<in> set (map (journal_as_kernel upper) journals)"
      then obtain j where "e = journal_as_kernel upper j" by auto
      then show "\<exists>i b. pop_id e = Inr (i, b)"
        using pop_id_journal[of upper j] by auto
    qed
    from reconcile_all_answers[OF assms this, of KERNEL_API_JOURNAL_ENDPOINT "[]" w]
    show ?thesis
      by (simp add: process_journals_def probed_simps comp_def)
  qed
  have B: "map_raise issue_as_kernel (filter_issues issues) = Inr entities \<longrightarrow>
           (\<exists>l' w'. process_issues (logged run) (Inr issues) ([], w) = (Inr (), (l', w'))
              \<and> probed l' = map (\<lambda>e. KERNEL_API_BUNDLES_ENDPOINT @ entity_id e) entities)"
  proof
    assume m: "map_raise issue_as_kernel (filter_issues issues) = Inr entities"
    have "\<forall>e \<in> set entities. \<exists>i b. pop_id e = Inr (i, b)"
    proof
      fix y assume "y \<in> set entities"
      then obtain x where "issue_as_kernel x = Inr y"
        using map_raise_Inr[OF m] by auto
      then show "\<exists>i b. pop_id y = Inr (i, b)"
        using pop_id_issue[of x y] by auto
    qed
    from reconcile_all_answers[OF assms this, of KERNEL_API_BUNDLES_ENDPOINT "[]" w]
    show "\<exists>l' w'. process_issues (logged run) (Inr issues) ([], w) = (Inr (), (l', w'))
              \<and> probed l' = map (\<lambda>e. KERNEL_API_BUNDLES_ENDPOINT @ entity_id e) entities"
      by (simp add: process_issues_def m probed_simps)
  qed
  have C: "map_raise issue_as_kernel (filter_issues issues) = Inl e \<longrightarrow>
           process_issues (logged run) (Inr issues) ([], w) = (Inl e, ([], w))"
    by (simp add: process_issues_def)
  have D: "process_journals upper (logged any_run) (Inr before) ([], v) = (Inr (), (l1, v1))
           \<and> fst (any_run (GET_request (KERNEL_API_JOURNAL_ENDPOINT
                      @ entity_id (journal_as_kernel upper journal))) v1) = Inl e \<longrightarrow>
           process_journals upper (logged any_run) (Inr (before @ journal # after)) ([], v)
             = (Inl e,
                (l1 @ [GET_request (KERNEL_API_JOURNAL_ENDPOINT
                         @ entity_id (journal_as_kernel upper journal))],
                 snd (any_run (GET_request (KERNEL_API_JOURNAL_ENDPOINT
                         @ entity_id (journal_as_kernel upper journal))) v1)))"
  proof
    let ?i = "entity_id (journal_as_kernel upper journal)"
    let ?g = "GET_request (KERNEL_API_JOURNAL_ENDPOINT @ ?i)"
    assume h: "process_journals upper (logged any_run) (Inr before) ([], v) = (Inr (), (l1, v1))
           \<and> fst (any_run ?g v1) = Inl e"
    obtain i where p: "pop_id (journal_as_kernel upper journal)
         = Inr (i, filter (\<lambda>(k, v). k \<noteq> ''_id'') (journal_as_kernel upper journal))"
      using pop_id_journal by blast
    have i: "?i = i" by (simp add: entity_id_def p)
    have r: "any_run (GET_request (KERNEL_API_JOURNAL_ENDPOINT @ i)) v1
        = (Inl e, snd (any_run (GET_request (KERNEL_API_JOURNAL_ENDPOINT @ i)) v1))"
      using h i by (simp add: prod_eq_iff)
    have "reconcile_all (logged any_run) KERNEL_API_JOURNAL_ENDPOINT
            (journal_as_kernel upper journal # map (journal_as_kernel upper) after) (l1, v1)
        = (Inl e, (l1 @ [GET_request (KERNEL_API_JOURNAL_ENDPOINT @ i)],
                   snd (any_run (GET_request (KERNEL_API_JOURNAL_ENDPOINT @ i)) v1)))"
      using register_or_update_raise[where run = any_run
          and entity_url = KERNEL_API_JOURNAL_ENDPOINT and id' = i and w = v1 and e = e
          and ?w1.0 = "snd (any_run (GET_request (KERNEL_API_JOURNAL_ENDPOINT @ i)) v1)"
          and l = l1, OF r]
      by (simp add: p)
    then show "process_journals upper (logged any_run) (Inr (before @ journal # after)) ([], v)
             = (Inl e, (l1 @ [?g], snd (any_run ?g v1)))"
      using h by (simp add: process_journals_def reconcile_all_append i)
  qed
  have E: "process_journals upper any_run (Inl e) v = (Inl e, v)"
    by (simp add: process_journals_def)
  have F: "process_issues any_run (Inl e) v = (Inl e, v)"
    by (simp add: process_issues_def)
  show ?thesis
    by (intro conjI) (rule A, rule B, rule C, rule D, rule E, rule F)
qed


theorem batch_aborts_on_exception_witness:
  "answers kernel_run
   \<and> (\<exists>l' w'. process_journals ascii_upper (logged kernel_run)
                (Inr [\<lparr>any_issn = Some ''0001-0002'', scielo_issn = Some ''0001-0002'', mission = None,
       title = Some ''Example Journal'', abbreviated_iso_title = None,
       abbreviated_title = None, acronym = None, print_issn = None, electronic_issn = None,
       status_history = None, subject_areas = None, sponsors = None,
       wos_subject_areas = None, submission_url = None, next_title = None,
       previous_title = None, editor_email = None, editor_address = None\<rparr>,
                      \<lparr>any_issn = Some ''0003-0004'', scielo_issn = Some ''0003-0004'', mission = None,
       title = Some ''Other Journal'', abbreviated_iso_title = None,
       abbreviated_title = None, acronym = None, print_issn = None, electronic_issn = None,
       status_history = None, subject_areas = None, sponsors = None,
       wos_subject_areas = None, submission_url = None, next_title = None,
       previous_title = None, editor_email = None, editor_address = None\<rparr>]) ([], []) = (Inr (), (l', w'))
          \<and> probed l' = [''/journals/0001-0002'', ''/journals/0003-0004''])
   \<and> process_issues (logged kernel_run)
         (Inr [\<lparr>volume = Some ''1'', number = Some ''1'', supplement_volume = None,
       supplement_number = None, issue_type = ''regular'', titles = None,
       start_month = None, end_month = None, publication_date = Some ''19xx'',
       v35 = Some [Some ''0001-0002'']\<rparr>,
               \<lparr>volume = Some ''1'', number = Some ''2'', supplement_volume = None,
       supplement_number = None, issue_type = ''regular'', titles = None,
       start_month = None, end_month = None, publication_date = Some ''2019'',
       v35 = Some [Some ''0001-0002'']\<rparr>]) ([], [])
       = (Inl ValueError, ([], []))
   \<and> process_journals ascii_upper (logged unreachable)
         (Inr [\<lparr>any_issn = Some ''0001-0002'', scielo_issn = Some ''0001-0002'', mission = None,
       title = Some ''Example Journal'', abbreviated_iso_title = None,
       abbreviated_title = None, acronym = None, print_issn = None, electronic_issn = None,
       status_history = None, subject_areas = None, sponsors = None,
       wos_subject_areas = None, submission_url = None, next_title = None,
       previous_title = None, editor_email = None, editor_address = None\<rparr>,
               \<lparr>any_issn = Some ''0003-0004'', scielo_issn = Some ''0003-0004'', mission = None,
       title = Some ''Other Journal'', abbreviated_iso_title = None,
       abbreviated_title = None, acronym = None, print_issn = None, electronic_issn = None,
       status_history = None, subject_areas = None, sponsors = None,
       wos_subject_areas = None, submission_url = None, next_title = None,
       previous_title = None, editor_email = None, editor_address = None\<rparr>]) ([], ())
       = (Inl TransportError, ([GET_request ''/journals/0001-0002''], ()))"
proof -
  let ?j1 = "\<lparr>any_issn = Some ''0001-0002'', scielo_issn = Some ''0001-0002'', mission = None,
       title = Some ''Example Journal'', abbreviated_iso_title = None,
       abbreviated_title = None, acronym = None, print_issn = None, electronic_issn = None,
       status_history = None, subject_areas = None, sponsors = None,
       wos_subject_areas = None, submission_url = None, next_title = None,
       previous_title = None, editor_email = None, editor_address = None\<rparr>"
  let ?j2 = "\<lparr>any_issn = Some ''0003-0004'', scielo_issn = Some ''0003-0004'', mission = None,
       title = Some ''Other Journal'', abbreviated_iso_title = None,
       abbreviated_title = None, acronym = None, print_issn = None, electronic_issn = None,
       status_history = None, subject_areas = None, sponsors = None,
       wos_subject_areas = None, submission_url = None, next_title = None,
       previous_title = None, editor_email = None, editor_address = None\<rparr>"
  let ?bad = "\<lparr>volume = Some ''1'', number = Some ''1'', supplement_volume = None,
       supplement_number = None, issue_type = ''regular'', titles = None,
       start_month = None, end_month = None, publication_date = Some ''19xx'',
       v35 = Some [Some ''0001-0002'']\<rparr>"
  let ?good = "\<lparr>volume = Some ''1'', number = Some ''2'', supplement_volume = None,
       supplement_number = None, issue_type = ''regular'', titles = None,
       start_month = None, end_month = None, publication_date = Some ''2019'',
       v35 = Some [Some ''0001-0002'']\<rparr>"
  have i1: "entity_id (journal_as_kernel ascii_upper ?j1) = ''0001-0002''"
    by (simp add: entity_id_def pop_id_def journal_as_kernel_def)
  have i2: "entity_id (journal_as_kernel ascii_upper ?j2) = ''0003-0004''"
    by (simp add: entity_id_def pop_id_def journal_as_kernel_def)
  have m: "map_raise issue_as_kernel (filter_issues [?bad, ?good]) = Inl ValueError"
    by code_simp
  have b: "process_journals ascii_upper (logged unreachable) (Inr []) ([], ()) = (Inr (), ([], ()))"
    by (simp add: process_journals_def)
  have u: "fst (unreachable (GET_request (KERNEL_API_JOURNAL_ENDPOINT
              @ entity_id (journal_as_kernel ascii_upper ?j1))) ()) = Inl TransportError"
    by (simp add: unreachable_def)
  note t = batch_aborts_on_exception[where run = kernel_run and upper = ascii_upper
      and journals = "[?j1, ?j2]" and w = "[]" and issues = "[?bad, ?good]" and e = ValueError
      and any_run = unreachable and before = "[]" and journal = ?j1 and after = "[?j2]"
      and v = "()" and ?l1.0 = "[]" and ?v1.0 = "()", OF answers_kernel_run]
  note t' = batch_aborts_on_exception[where run = kernel_run and upper = ascii_upper
      and e = TransportError
      and any_run = unreachable and before = "[]" and journal = ?j1 and after = "[?j2]"
      and v = "()" and ?l1.0 = "[]" and ?v1.0 = "()", OF answers_kernel_run]
  have one: "\<exists>l' w'. process_journals ascii_upper (logged kernel_run) (Inr [?j1, ?j2]) ([], [])
               = (Inr (), (l', w'))
          \<and> probed l' = [''/journals/0001-0002'', ''/journals/0003-0004'']"
    using t[THEN conjunct1] by (simp add: i1 i2 KERNEL_API_JOURNAL_ENDPOINT_def)
  have two: "process_issues (logged kernel_run) (Inr [?bad, ?good]) ([], [])
       = (Inl ValueError, ([], []))"
    using t[THEN conjunct2, THEN conjunct2, THEN conjunct1] m by simp
  have three: "process_journals ascii_upper (logged unreachable) (Inr [?j1, ?j2]) ([], ())
       = (Inl TransportError, ([GET_request ''/journals/0001-0002''], ()))"
    using t'[THEN conjunct2, THEN conjunct2, THEN conjunct2, THEN conjunct1] b u
    by (simp add: i1 KERNEL_API_JOURNAL_ENDPOINT_def)
  show ?thesis
    using answers_kernel_run one two three by simp
qed

text \<open>
  The claim as stated fails: an issue whose publication date cannot be parsed, placed
  before an issue that alone would be created, fails the batch with no request sent for
  either.
\<close>

theorem failed_entity_stops_batch:
  "process_issues (logged kernel_run)
     (Inr [\<lparr>volume = Some ''1'', number = Some ''1'', supplement_volume = None,
       supplement_number = None, issue_type = ''regular'', titles = None,
       start_month = None, end_month = None, publication_date = Some ''19xx'',
       v35 = Some [Some ''0001-0002'']\<rparr>,
           \<lparr>volume = Some ''1'', number = Some ''2'', supplement_volume = None,
       supplement_number = None, issue_type = ''regular'', titles = None,
       start_month = None, end_month = None, publication_date = Some ''2019'',
       v35 = Some [Some ''0001-0002'']\<rparr>]) ([], [])
     = (Inl ValueError, ([], []))
   \<and> process_issues (logged kernel_run)
       (Inr [\<lparr>volume = Some ''1'', number = Some ''2'', supplement_volume = None,
       supplement_number = None, issue_type = ''regular'', titles = None,
       start_month = None, end_month = None, publication_date = Some ''2019'',
       v35 = Some [Some ''0001-0002'']\<rparr>]) ([], [])
     = (Inr (),
        ([GET_request ''/bundles/0001-0002-2019-v1-n2'',
          PUT_request ''/bundles/0001-0002-2019-v1-n2''
            [(''volume'', JStr ''1''), (''number'', JStr ''2'')]],
         [(''/bundles/0001-0002-2019-v1-n2'',
           [(''volume'', JStr ''1''), (''number'', JStr ''2'')])]))"
proof -
  let ?bad = "\<lparr>volume = Some ''1'', number = Some ''1'', supplement_volume = None,
       supplement_number = None, issue_type = ''regular'', titles = None,
       start_month = None, end_month = None, publication_date = Some ''19xx'',
       v35 = Some [Some ''0001-0002'']\<rparr>"
  let ?good = "\<lparr>volume = Some ''1'', number = Some ''2'', supplement_volume = None,
       supplement_number = None, issue_type = ''regular'', titles = None,
       start_month = None, end_month = None, publication_date = Some ''2019'',
       v35 = Some [Some ''0001-0002'']\<rparr>"
  have m: "map_raise issue_as_kernel (filter_issues [?bad, ?good]) = Inl ValueError"
    by code_simp
  have g: "map_raise issue_as_kernel (filter_issues [?good])
      = Inr ([(''volume'', JStr ''1''), (''number'', JStr ''2''), (''titles'', JList []),
               (''publication_season'', JList []), (''_id'', JStr ''0001-0002-2019-v1-n2'')]
              # [])"
    by code_simp
  have one: "process_issues (logged kernel_run) (Inr [?bad, ?good]) ([], []) = (Inl ValueError, ([], []))"
    unfolding process_issues_def by (simp add: m)
  have two: "process_issues (logged kernel_run) (Inr [?good]) ([], [])
     = (Inr (),
        ([GET_request ''/bundles/0001-0002-2019-v1-n2'',
          PUT_request ''/bundles/0001-0002-2019-v1-n2''
            [(''volume'', JStr ''1''), (''number'', JStr ''2'')]],
         [(''/bundles/0001-0002-2019-v1-n2'',
           [(''volume'', JStr ''1''), (''number'', JStr ''2'')])]))"
    unfolding process_issues_def
    by (simp add: g pop_id_def register_or_update_def logged_def kernel_run_def
          create_payload_def KERNEL_API_BUNDLES_ENDPOINT_def GET_request_def PUT_request_def)
  show ?thesis using one two by simp
qed

end
